theory Spec2Isabelle
  imports Complex_Main "HOL-Library.Sublist"
begin

section \<open>The PDFNoodle MCP server (src/index.ts)\<close>

text \<open>
  A shallow embedding of \<^verbatim>\<open>src/index.ts\<close>. Network calls, timers and thrown values
  are made explicit:
  \<^item> a thrown value is a value of \<open>exn\<close>, and a computation that may throw returns
    \<open>exn + 'a\<close> (\<open>Inl\<close> is the throw);
  \<^item> what \<^verbatim>\<open>fetch\<close> does for one call is a \<open>fetch_outcome\<close> handed to \<open>callApi\<close>; the
    upstream API is therefore an arbitrary environment;
  \<^item> every \<^verbatim>\<open>fetch\<close> and every \<^verbatim>\<open>setTimeout\<close> wait is appended to a trace of events,
    which is threaded through the functions.
\<close>

subsection \<open>Thrown values and text\<close>

text \<open>
  \<open>Error m\<close> is an instance of \<^verbatim>\<open>Error\<close> with message \<open>m\<close>; \<open>Thrown s\<close> is any other
  thrown value, \<open>s\<close> being what \<^verbatim>\<open>String(err)\<close> gives for it.
\<close>

datatype exn = Error string | Thrown string

text \<open>\<^verbatim>\<open>err instanceof Error ? err.message : String(err)\<close>\<close>

fun message_of :: "exn \<Rightarrow> string" where
  "message_of (Error m) = m"
| "message_of (Thrown s) = s"

text \<open>A natural number in a template literal: its decimal digits.\<close>

definition digit :: "nat \<Rightarrow> char" where
  "digit n = ''0123456789'' ! n"

function show_nat :: "nat \<Rightarrow> string" where
  "show_nat n = (if n < 10 then [digit n] else show_nat (n div 10) @ [digit (n mod 10)])"
  by pat_completeness auto
termination
  by (relation "measure (\<lambda>n. n)") auto

declare show_nat.simps [simp del]

subsection \<open>Response types\<close>

text \<open>
  The interfaces of the source. \<open>PdfStatusResponse\<close> has the fields of
  \<open>PdfSuccessResponse\<close> and two more, so it is a record extension; the \<^verbatim>\<open>requestId\<close> of
  \<open>PdfQueuedResponse\<close> is named \<open>queuedRequestId\<close> because field names are global.
\<close>

record PdfMetadata =
  executionTime :: string
  fileSize :: string

record PdfSuccessResponse =
  signedUrl :: string
  metadata :: "PdfMetadata option"

record PdfQueuedResponse =
  queuedRequestId :: string
  statusUrl :: string
  message :: string

text \<open>
  The declared type of \<^verbatim>\<open>renderStatus\<close> has the values \<^verbatim>\<open>ONGOING\<close>, \<^verbatim>\<open>SUCCESS\<close> and
  \<^verbatim>\<open>FAILED\<close>. The cast \<^verbatim>\<open>as T\<close> checks nothing at run time, so \<open>Unlisted\<close> stands for
  any other value the property may have, an absent property included.
\<close>

datatype RenderStatus = ONGOING | SUCCESS | FAILED | Unlisted

record PdfStatusResponse = PdfSuccessResponse +
  requestId :: string
  renderStatus :: RenderStatus

subsection \<open>The upstream API as an environment\<close>

datatype http_method = GET | POST

text \<open>
  A response of \<^verbatim>\<open>fetch\<close>: its status code, and what \<^verbatim>\<open>response.text()\<close> and
  \<^verbatim>\<open>response.json() as T\<close> give (either may throw). \<open>'d\<close> is the type \<open>T\<close> that the call
  site asserts.
\<close>

record 'd response =
  status :: nat
  body_text :: "exn + string"
  body_json :: "exn + 'd"

text \<open>\<^verbatim>\<open>response.ok\<close>, as the Fetch standard defines it.\<close>

definition ok :: "'d response \<Rightarrow> bool" where
  "ok r = (200 \<le> status r \<and> status r \<le> 299)"

datatype 'd fetch_outcome = Rejected exn | Responded "'d response"

text \<open>
  A body read through a declared response type. \<open>Null\<close> is the JSON value \<^verbatim>\<open>null\<close>:
  reading a property of it throws a \<^verbatim>\<open>TypeError\<close> (with the message of V8, the engine
  of Node.js).
  \<open>Shaped d\<close> is any other value; reading a property of it never throws, and \<open>d\<close>
  holds what the reads of the code give: the rendering of the value in a template
  literal for a string field (\<open>undefined\<close> for a property the body lacks), \<open>None\<close> for an
  absent \<^verbatim>\<open>metadata\<close>, the empty string for a falsy field of it.
\<close>

datatype 'd body = Null | Shaped 'd

definition null_read :: "string \<Rightarrow> exn" where
  "null_read name =
     Error (''Cannot read properties of null (reading '' @ [CHR 0x27] @ name @ [CHR 0x27] @ '')'')"

text \<open>
  The observable effects, in the order they happen: a wait of \<open>delay\<close> milliseconds, or
  a request to \<^verbatim>\<open>PDFNOODLE_API_BASE + endpoint\<close> with the bearer credential and the body
  (\<open>None\<close>: no body). JavaScript numbers are doubles; the delays are modelled as
  rationals, which agree with the doubles on every value the default schedule reaches
  (see \<open>delay_seq_values\<close>). Every call of the source uses the default initial delay,
  and so does every property below.
\<close>

text \<open>
  A request body is a JavaScript object built by the handlers
  (\<^verbatim>\<open>Record<string, unknown>\<close>): its properties in insertion order. A property holds a
  string, a boolean or a parsed JSON value of type \<open>'j\<close>.
\<close>

datatype 'j js_value = VString string | VBool bool | VJson 'j

type_synonym 'j payload = "(string \<times> 'j js_value) list"

datatype 'j event = Sleep rat | Fetch string http_method string "'j payload option"

fun is_fetch :: "'j event \<Rightarrow> bool" where
  "is_fetch (Fetch _ _ _ _) = True"
| "is_fetch (Sleep _) = False"

subsection \<open>callApi\<close>

definition callApi ::
  "'d fetch_outcome \<Rightarrow> string \<Rightarrow> string \<Rightarrow> http_method \<Rightarrow> 'j payload option \<Rightarrow> 'j event list
    \<Rightarrow> (exn + nat \<times> 'd) \<times> 'j event list" where
  "callApi reply apiKey endpoint method body tr =
     (let tr' = tr @ [Fetch endpoint method apiKey body] in
      case reply of
        Rejected e \<Rightarrow> (Inl e, tr')
      | Responded r \<Rightarrow>
          if \<not> ok r \<and> status r \<noteq> 202 then
            (case body_text r of
               Inl e \<Rightarrow> (Inl e, tr')
             | Inr errorText \<Rightarrow>
                 (Inl (Error (''PDFNoodle API Error ('' @ show_nat (status r) @ ''): '' @ errorText)),
                  tr'))
          else
            (case body_json r of
               Inl e \<Rightarrow> (Inl e, tr')
             | Inr d \<Rightarrow> (Inr (status r, d), tr')))"

subsection \<open>pollForPdfCompletion\<close>

text \<open>
  The \<^verbatim>\<open>for\<close> loop of \<^verbatim>\<open>pollForPdfCompletion\<close>, entered at \<open>attempt\<close> with the
  current \<open>delay\<close>. \<open>replies i\<close> is what the upstream does for the status query of
  attempt \<open>i + 1\<close>. The first read of the body is \<^verbatim>\<open>data.renderStatus\<close>, which throws
  when the body is \<^verbatim>\<open>null\<close>; a status that is neither \<^verbatim>\<open>SUCCESS\<close> nor \<^verbatim>\<open>FAILED\<close>
  lets the loop go on.
\<close>

function pollLoop ::
  "(nat \<Rightarrow> PdfStatusResponse body fetch_outcome) \<Rightarrow> string \<Rightarrow> string \<Rightarrow> nat \<Rightarrow> nat \<Rightarrow> rat
    \<Rightarrow> 'j event list \<Rightarrow> (exn + PdfStatusResponse) \<times> 'j event list" where
  "pollLoop replies apiKey rid maxAttempts attempt delay tr =
     (if attempt \<le> maxAttempts then
        (case callApi (replies (attempt - 1)) apiKey (''pdf/status/'' @ rid) GET None
                (tr @ [Sleep delay]) of
           (Inl e, tr') \<Rightarrow> (Inl e, tr')
         | (Inr (st, Null), tr') \<Rightarrow> (Inl (null_read ''renderStatus''), tr')
         | (Inr (st, Shaped data), tr') \<Rightarrow>
             if renderStatus data = SUCCESS then (Inr data, tr')
             else if renderStatus data = FAILED then
               (Inl (Error (''PDF generation failed for request '' @ rid)), tr')
             else pollLoop replies apiKey rid maxAttempts (attempt + 1)
                    (min (delay * 3 / 2) 10000) tr')
      else
        (Inl (Error (''PDF generation timed out after '' @ show_nat maxAttempts
                      @ '' attempts for request '' @ rid)), tr))"
  by pat_completeness auto
termination
  by (relation "measure (\<lambda>(replies, apiKey, rid, maxAttempts, attempt, delay, tr).
        Suc maxAttempts - attempt)") auto

declare pollLoop.simps [simp del]

definition pollForPdfCompletion ::
  "(nat \<Rightarrow> PdfStatusResponse body fetch_outcome) \<Rightarrow> string \<Rightarrow> string \<Rightarrow> nat \<Rightarrow> rat
    \<Rightarrow> 'j event list \<Rightarrow> (exn + PdfStatusResponse) \<times> 'j event list" where
  "pollForPdfCompletion replies apiKey rid maxAttempts initialDelayMs tr =
     pollLoop replies apiKey rid maxAttempts 1 initialDelayMs tr"

text \<open>The defaults of the two optional parameters.\<close>

definition default_maxAttempts :: nat where
  "default_maxAttempts = 20"

definition default_initialDelayMs :: rat where
  "default_initialDelayMs = 2000"

subsection \<open>Vocabulary of the claims about polling\<close>

text \<open>
  The upstream answers a call with the data \<open>d\<close>: a response that \<open>callApi\<close> accepts
  (status 2xx) and whose body decodes to \<open>d\<close>.
\<close>

definition delivers :: "'d fetch_outcome \<Rightarrow> 'd \<Rightarrow> bool" where
  "delivers reply d =
     (case reply of
        Rejected e \<Rightarrow> False
      | Responded r \<Rightarrow> (ok r \<or> status r = 202) \<and> body_json r = Inr d)"

text \<open>The render status a reply carries, if it carries one.\<close>

definition reply_status :: "PdfStatusResponse body fetch_outcome \<Rightarrow> RenderStatus option" where
  "reply_status reply =
     (case reply of
        Rejected e \<Rightarrow> None
      | Responded r \<Rightarrow>
          if ok r \<or> status r = 202 then
            (case body_json r of
               Inl e \<Rightarrow> None
             | Inr Null \<Rightarrow> None
             | Inr (Shaped d) \<Rightarrow> Some (renderStatus d))
          else None)"

text \<open>One step of the back-off: \<^verbatim>\<open>Math.min(delay * 1.5, 10000)\<close>.\<close>

definition backoff :: "rat \<Rightarrow> rat" where
  "backoff d = min (d * 3 / 2) 10000"

text \<open>The delay schedule in the words of the specification.\<close>

primrec delay_seq :: "nat \<Rightarrow> rat" where
  "delay_seq 0 = 2000"
| "delay_seq (Suc i) = min (delay_seq i * 3 / 2) 10000"

text \<open>The status query of a job, and the trace of \<open>n\<close> rounds of waiting and querying.\<close>

definition status_query :: "string \<Rightarrow> string \<Rightarrow> 'j event" where
  "status_query apiKey rid = Fetch (''pdf/status/'' @ rid) GET apiKey None"

definition rounds :: "(nat \<Rightarrow> rat) \<Rightarrow> string \<Rightarrow> string \<Rightarrow> nat \<Rightarrow> 'j event list" where
  "rounds delays apiKey rid n =
     concat (map (\<lambda>i. [Sleep (delays i), status_query apiKey rid]) [0..<n])"

subsection \<open>Tool results\<close>

text \<open>
  A tool returns \<^verbatim>\<open>{content: [{type: "text", text}], isError?: true}\<close>. \<open>isError\<close> is
  \<open>None\<close> where the source leaves the property out.
\<close>

datatype content_item = TextContent string

record tool_result =
  content :: "content_item list"
  isError :: "bool option"

definition text_result :: "string \<Rightarrow> tool_result" where
  "text_result t = \<lparr>content = [TextContent t], isError = None\<rparr>"

definition error_result :: "string \<Rightarrow> tool_result" where
  "error_result t = \<lparr>content = [TextContent t], isError = Some True\<rparr>"

text \<open>
  \<^verbatim>\<open>try { body } catch (err) { handler }\<close> around a computation that threads the trace:
  a throw of the body is handed to the handler together with the trace reached.
\<close>

definition try_catch ::
  "(exn + 'a) \<times> 's \<Rightarrow> (exn \<Rightarrow> 's \<Rightarrow> (exn + 'a) \<times> 's) \<Rightarrow> (exn + 'a) \<times> 's" where
  "try_catch body handler =
     (case body of
        (Inl err, s) \<Rightarrow> handler err s
      | (Inr v, s) \<Rightarrow> (Inr v, s))"

text \<open>
  The \<^verbatim>\<open>catch\<close> block shared by all five tools, up to the prefix of the text: it
  returns (never throws) a flagged result.
\<close>

definition catch_as ::
  "string \<Rightarrow> exn \<Rightarrow> 's \<Rightarrow> (exn + tool_result) \<times> 's" where
  "catch_as pre err s = (Inr (error_result (pre @ message_of err)), s)"

text \<open>\<^verbatim>\<open>x || "N/A"\<close> for an optional string: absent and empty are both falsy.\<close>

definition or_NA :: "string option \<Rightarrow> string" where
  "or_NA v = (case v of None \<Rightarrow> ''N/A'' | Some x \<Rightarrow> if x = [] then ''N/A'' else x)"

text \<open>
  The two lines
  \<^verbatim>\<open>\nExecution time: ${m?.executionTime || "N/A"}\nFile size: ${m?.fileSize || "N/A"}\<close>
  that end every success text.
\<close>

definition timing :: "PdfMetadata option \<Rightarrow> string" where
  "timing m = ''\<newline>Execution time: '' @ or_NA (map_option executionTime m)
     @ ''\<newline>File size: '' @ or_NA (map_option fileSize m)"

subsection \<open>Tools 1 to 3: list_templates, get_template_variables, check_pdf_status\<close>

text \<open>
  \<open>stringify\<close> stands for \<^verbatim>\<open>JSON.stringify(data, null, 2)\<close> of the runtime. The handler of
  \<^verbatim>\<open>list_templates\<close> destructures only \<^verbatim>\<open>apiKey\<close>; \<open>limit\<close> is the second field of its
  input schema.
\<close>

definition list_templates_body ::
  "('j \<Rightarrow> string) \<Rightarrow> 'j fetch_outcome \<Rightarrow> string \<Rightarrow> 'j event list
    \<Rightarrow> (exn + tool_result) \<times> 'j event list" where
  "list_templates_body stringify reply apiKey tr =
     (case callApi reply apiKey ''integration/templates'' GET None tr of
        (Inl e, tr') \<Rightarrow> (Inl e, tr')
      | (Inr (st, data), tr') \<Rightarrow> (Inr (text_result (stringify data)), tr'))"

definition list_templates ::
  "('j \<Rightarrow> string) \<Rightarrow> 'j fetch_outcome \<Rightarrow> string \<Rightarrow> rat option \<Rightarrow> 'j event list
    \<Rightarrow> (exn + tool_result) \<times> 'j event list" where
  "list_templates stringify reply apiKey limit tr =
     try_catch (list_templates_body stringify reply apiKey tr)
       (catch_as ''Error fetching templates: '')"



definition check_pdf_status_body ::
  "PdfStatusResponse body fetch_outcome \<Rightarrow> string \<Rightarrow> string \<Rightarrow> 'j event list
    \<Rightarrow> (exn + tool_result) \<times> 'j event list" where
  "check_pdf_status_body reply apiKey rid tr =
     (case callApi reply apiKey (''pdf/status/'' @ rid) GET None tr of
        (Inl e, tr') \<Rightarrow> (Inl e, tr')
      | (Inr (st, Null), tr') \<Rightarrow> (Inl (null_read ''renderStatus''), tr')
      | (Inr (st, Shaped data), tr') \<Rightarrow>
          if renderStatus data = SUCCESS then
            (Inr (text_result (''PDF Ready! Download URL: '' @ signedUrl data
                    @ timing (metadata data))), tr')
          else if renderStatus data = ONGOING then
            (Inr (text_result (''PDF generation is still in progress. Request ID: '' @ rid
                    @ ''. Please check again in a few seconds.'')), tr')
          else
            (Inr (error_result (''PDF generation failed. Request ID: '' @ rid)), tr'))"

definition check_pdf_status ::
  "PdfStatusResponse body fetch_outcome \<Rightarrow> string \<Rightarrow> string \<Rightarrow> 'j event list
    \<Rightarrow> (exn + tool_result) \<times> 'j event list" where
  "check_pdf_status reply apiKey rid tr =
     try_catch (check_pdf_status_body reply apiKey rid tr)
       (catch_as ''Error checking PDF status: '')"

subsection \<open>Tools 4 and 5: html_to_pdf, generate_pdf\<close>

text \<open>
  The body of \<^verbatim>\<open>html-to-pdf/sync\<close> and \<^verbatim>\<open>pdf/sync\<close> has the union type
  \<^verbatim>\<open>PdfSuccessResponse | PdfQueuedResponse\<close>, which the handlers cast by the status code
  alone. A property that the object does not have reads as \<^verbatim>\<open>undefined\<close>: in a template
  literal it renders as the text \<open>undefined\<close>, and \<^verbatim>\<open>metadata?.x\<close> of it is absent.
\<close>

datatype sync_response = Success PdfSuccessResponse | Queued PdfQueuedResponse

fun rendered_signedUrl :: "sync_response \<Rightarrow> string" where
  "rendered_signedUrl (Success r) = signedUrl r"
| "rendered_signedUrl (Queued q) = ''undefined''"

fun read_metadata :: "sync_response \<Rightarrow> PdfMetadata option" where
  "read_metadata (Success r) = metadata r"
| "read_metadata (Queued q) = None"

fun rendered_requestId :: "sync_response \<Rightarrow> string" where
  "rendered_requestId (Queued q) = queuedRequestId q"
| "rendered_requestId (Success r) = ''undefined''"

text \<open>\<^verbatim>\<open>if (s)\<close> for an optional string parameter: true when present and not empty.\<close>

definition truthy :: "string option \<Rightarrow> bool" where
  "truthy s = (case s of None \<Rightarrow> False | Some x \<Rightarrow> x \<noteq> [])"

text \<open>
  \<^verbatim>\<open>if (arg) { try { payload[name] = JSON.parse(arg) } catch { throw new Error(...) } }\<close>.
  \<open>parse\<close> stands for \<^verbatim>\<open>JSON.parse\<close> of the runtime, \<open>None\<close> being its \<^verbatim>\<open>SyntaxError\<close>.
\<close>

definition invalid_json :: "string \<Rightarrow> exn" where
  "invalid_json name = Error (''Invalid JSON provided for '' @ [CHR 0x27] @ name @ [CHR 0x27]
     @ '' parameter'')"

definition add_json_param ::
  "(string \<Rightarrow> 'j option) \<Rightarrow> string \<Rightarrow> string option \<Rightarrow> 'j payload \<Rightarrow> exn + 'j payload" where
  "add_json_param parse name arg payload =
     (if truthy arg then
        (case parse (the arg) of
           None \<Rightarrow> Inl (invalid_json name)
         | Some v \<Rightarrow> Inr (payload @ [(name, VJson v)]))
      else Inr payload)"

text \<open>\<^verbatim>\<open>if (arg !== undefined) payload[name] = arg\<close>\<close>

definition add_bool_param :: "string \<Rightarrow> bool option \<Rightarrow> 'j payload \<Rightarrow> 'j payload" where
  "add_bool_param name arg payload =
     (case arg of None \<Rightarrow> payload | Some b \<Rightarrow> payload @ [(name, VBool b)])"

text \<open>The payload of \<^verbatim>\<open>html_to_pdf\<close>, or the validation error thrown while building it.\<close>

definition html_payload ::
  "(string \<Rightarrow> 'j option) \<Rightarrow> string \<Rightarrow> string option \<Rightarrow> bool option \<Rightarrow> string option
    \<Rightarrow> bool option \<Rightarrow> exn + 'j payload" where
  "html_payload parse html pdfParams convertToImage metadataArg hasCover =
     (case add_json_param parse ''pdfParams'' pdfParams [(''html'', VString html)] of
        Inl e \<Rightarrow> Inl e
      | Inr p1 \<Rightarrow>
          (case add_json_param parse ''metadata'' metadataArg p1 of
             Inl e \<Rightarrow> Inl e
           | Inr p2 \<Rightarrow>
               Inr (add_bool_param ''hasCover'' hasCover
                      (add_bool_param ''convertToImage'' convertToImage p2))))"

text \<open>\<^verbatim>\<open>convertToImage ? "PNG" : "PDF"\<close>\<close>

definition fileType :: "bool option \<Rightarrow> string" where
  "fileType convertToImage = (if convertToImage = Some True then ''PNG'' else ''PDF'')"

text \<open>\<^verbatim>\<open>waitForCompletion = true\<close> in the parameter list: the default of an absent flag.\<close>

definition wait_flag :: "bool option \<Rightarrow> bool" where
  "wait_flag waitForCompletion = (case waitForCompletion of None \<Rightarrow> True | Some b \<Rightarrow> b)"

definition queued_text :: "string \<Rightarrow> string" where
  "queued_text rid = ''PDF generation queued (taking longer than 30 seconds).\<newline>Request ID: ''
     @ rid @ ''\<newline>Use the check_pdf_status tool to monitor progress.''"

text \<open>
  What both tools do with the answer of the sync endpoint; \<open>kind\<close> is the file type
  that starts the success text.
\<close>

definition after_sync ::
  "(nat \<Rightarrow> PdfStatusResponse body fetch_outcome) \<Rightarrow> string \<Rightarrow> string \<Rightarrow> bool
    \<Rightarrow> nat \<Rightarrow> sync_response body \<Rightarrow> 'j event list \<Rightarrow> (exn + tool_result) \<times> 'j event list" where
  "after_sync status_replies apiKey kind wait st result tr =
     (if st = 200 then
        (case result of
           Null \<Rightarrow> (Inl (null_read ''signedUrl''), tr)
         | Shaped successResult \<Rightarrow>
             (Inr (text_result (kind @ '' Generated Successfully!\<newline>Download URL: ''
                     @ rendered_signedUrl successResult
                     @ timing (read_metadata successResult))), tr))
      else if st = 202 then
        (case result of
           Null \<Rightarrow> (Inl (null_read ''requestId''), tr)
         | Shaped queuedResult \<Rightarrow>
             if \<not> wait then
               (Inr (text_result (queued_text (rendered_requestId queuedResult))), tr)
             else
               (case pollForPdfCompletion status_replies apiKey
                       (rendered_requestId queuedResult)
                       default_maxAttempts default_initialDelayMs tr of
                  (Inl e, tr') \<Rightarrow> (Inl e, tr')
                | (Inr finalResult, tr') \<Rightarrow>
                    (Inr (text_result
                            (kind @ '' Generated Successfully (async)!\<newline>Download URL: ''
                               @ signedUrl finalResult @ timing (metadata finalResult))), tr')))
      else (Inl (Error (''Unexpected response status: '' @ show_nat st)), tr))"

definition html_to_pdf_body ::
  "(string \<Rightarrow> 'j option) \<Rightarrow> sync_response body fetch_outcome
    \<Rightarrow> (nat \<Rightarrow> PdfStatusResponse body fetch_outcome)
    \<Rightarrow> string \<Rightarrow> string \<Rightarrow> string option \<Rightarrow> bool option \<Rightarrow> string option \<Rightarrow> bool option
    \<Rightarrow> bool option \<Rightarrow> 'j event list \<Rightarrow> (exn + tool_result) \<times> 'j event list" where
  "html_to_pdf_body parse sync_reply status_replies
       apiKey html pdfParams convertToImage metadataArg hasCover waitForCompletion tr =
     (case html_payload parse html pdfParams convertToImage metadataArg hasCover of
        Inl e \<Rightarrow> (Inl e, tr)
      | Inr payload \<Rightarrow>
          (case callApi sync_reply apiKey ''html-to-pdf/sync'' POST (Some payload) tr of
             (Inl e, tr') \<Rightarrow> (Inl e, tr')
           | (Inr (st, result), tr') \<Rightarrow>
               after_sync status_replies apiKey (fileType convertToImage)
                 (wait_flag waitForCompletion) st result tr'))"

definition html_to_pdf ::
  "(string \<Rightarrow> 'j option) \<Rightarrow> sync_response body fetch_outcome
    \<Rightarrow> (nat \<Rightarrow> PdfStatusResponse body fetch_outcome)
    \<Rightarrow> string \<Rightarrow> string \<Rightarrow> string option \<Rightarrow> bool option \<Rightarrow> string option \<Rightarrow> bool option
    \<Rightarrow> bool option \<Rightarrow> 'j event list \<Rightarrow> (exn + tool_result) \<times> 'j event list" where
  "html_to_pdf parse sync_reply status_replies
       apiKey html pdfParams convertToImage metadataArg hasCover waitForCompletion tr =
     try_catch
       (html_to_pdf_body parse sync_reply status_replies
          apiKey html pdfParams convertToImage metadataArg hasCover waitForCompletion tr)
       (catch_as ''Error converting HTML to PDF: '')"

definition generate_pdf_body ::
  "(string \<Rightarrow> 'j option) \<Rightarrow> sync_response body fetch_outcome
    \<Rightarrow> (nat \<Rightarrow> PdfStatusResponse body fetch_outcome)
    \<Rightarrow> string \<Rightarrow> string \<Rightarrow> string \<Rightarrow> bool option
    \<Rightarrow> 'j event list \<Rightarrow> (exn + tool_result) \<times> 'j event list" where
  "generate_pdf_body parse sync_reply status_replies apiKey templateId data waitForCompletion tr =
     (case parse data of
        None \<Rightarrow> (Inl (invalid_json ''data''), tr)
      | Some parsedData \<Rightarrow>
          (case callApi sync_reply apiKey ''pdf/sync'' POST
                  (Some [(''templateId'', VString templateId), (''data'', VJson parsedData)]) tr of
             (Inl e, tr') \<Rightarrow> (Inl e, tr')
           | (Inr (st, result), tr') \<Rightarrow>
               after_sync status_replies apiKey ''PDF'' (wait_flag waitForCompletion)
                 st result tr'))"

definition generate_pdf ::
  "(string \<Rightarrow> 'j option) \<Rightarrow> sync_response body fetch_outcome
    \<Rightarrow> (nat \<Rightarrow> PdfStatusResponse body fetch_outcome)
    \<Rightarrow> string \<Rightarrow> string \<Rightarrow> string \<Rightarrow> bool option
    \<Rightarrow> 'j event list \<Rightarrow> (exn + tool_result) \<times> 'j event list" where
  "generate_pdf parse sync_reply status_replies apiKey templateId data waitForCompletion tr =
     try_catch
       (generate_pdf_body parse sync_reply status_replies apiKey templateId data
          waitForCompletion tr)
       (catch_as ''Error generating PDF: '')"

subsection \<open>JSON.parse\<close>

text \<open>
  The tools above take \<^verbatim>\<open>JSON.parse\<close> as the parameter \<open>parse\<close>, so what is proved of
  them holds for every parser. For concrete inputs the grammar of JSON (ECMA-404, which
  \<^verbatim>\<open>JSON.parse\<close> follows) is written out: a scanner, one character at a time, and a
  pushdown parser over its tokens. A number keeps its source text and a string the
  source text between its quotes (escapes are checked, not decoded): no tool reads
  into a parsed value.
\<close>

datatype json =
    JNull
  | JBool bool
  | JNumber string
  | JString string
  | JArray "json list"
  | JObject "(string \<times> json) list"

datatype token =
    TLBrace | TRBrace | TLBracket | TRBracket | TColon | TComma
  | TString string | TNumber string | TTrue | TFalse | TNull

text \<open>
  The number grammar \<^verbatim>\<open>-? (0 | [1-9][0-9]*) (. [0-9]+)? ([eE] [+-]? [0-9]+)?\<close> as an
  automaton; a number may end in the states of \<open>num_final\<close>.
\<close>

datatype num_state = NMinus | NZero | NInt | NDot | NFrac | NE | NESign | NExp

definition is_digit :: "char \<Rightarrow> bool" where
  "is_digit c = (c \<in> set ''0123456789'')"

definition is_hex :: "char \<Rightarrow> bool" where
  "is_hex c = (c \<in> set ''0123456789abcdefABCDEF'')"

definition is_exp :: "char \<Rightarrow> bool" where
  "is_exp c = (c = CHR ''e'' \<or> c = CHR ''E'')"

fun num_final :: "num_state \<Rightarrow> bool" where
  "num_final NZero = True"
| "num_final NInt = True"
| "num_final NFrac = True"
| "num_final NExp = True"
| "num_final _ = False"

fun num_step :: "num_state \<Rightarrow> char \<Rightarrow> num_state option" where
  "num_step NMinus c =
     (if c = CHR ''0'' then Some NZero else if is_digit c then Some NInt else None)"
| "num_step NZero c =
     (if c = CHR ''.'' then Some NDot else if is_exp c then Some NE else None)"
| "num_step NInt c =
     (if is_digit c then Some NInt else if c = CHR ''.'' then Some NDot
      else if is_exp c then Some NE else None)"
| "num_step NDot c = (if is_digit c then Some NFrac else None)"
| "num_step NFrac c =
     (if is_digit c then Some NFrac else if is_exp c then Some NE else None)"
| "num_step NE c =
     (if c = CHR ''+'' \<or> c = CHR ''-'' then Some NESign
      else if is_digit c then Some NExp else None)"
| "num_step NESign c = (if is_digit c then Some NExp else None)"
| "num_step NExp c = (if is_digit c then Some NExp else None)"

text \<open>
  The scanner is between tokens (\<open>LStart\<close>), inside \<^verbatim>\<open>true\<close>, \<^verbatim>\<open>false\<close> or \<^verbatim>\<open>null\<close>
  with the characters still expected (\<open>LLit\<close>), inside a string (\<open>LStr\<close>, \<open>LEsc\<close> after a
  backslash, \<open>LUni n\<close> with \<open>n\<close> hex digits of a \<^verbatim>\<open>\u\<close> escape to come) or inside a
  number (\<open>LNum\<close>). Characters read so far are kept in reverse.
\<close>

datatype lex_state =
    LStart
  | LLit string token
  | LStr string
  | LEsc string
  | LUni nat string
  | LNum num_state string

definition lex_start :: "char \<Rightarrow> (lex_state \<times> token list) option" where
  "lex_start c =
     (if c \<in> set [CHR '' '', CHR 0x09, CHR 0x0A, CHR 0x0D] then Some (LStart, [])
      else if c = CHR ''{'' then Some (LStart, [TLBrace])
      else if c = CHR ''}'' then Some (LStart, [TRBrace])
      else if c = CHR ''['' then Some (LStart, [TLBracket])
      else if c = CHR '']'' then Some (LStart, [TRBracket])
      else if c = CHR '':'' then Some (LStart, [TColon])
      else if c = CHR '','' then Some (LStart, [TComma])
      else if c = CHR 0x22 then Some (LStr [], [])
      else if c = CHR ''-'' then Some (LNum NMinus [c], [])
      else if c = CHR ''0'' then Some (LNum NZero [c], [])
      else if is_digit c then Some (LNum NInt [c], [])
      else if c = CHR ''t'' then Some (LLit ''rue'' TTrue, [])
      else if c = CHR ''f'' then Some (LLit ''alse'' TFalse, [])
      else if c = CHR ''n'' then Some (LLit ''ull'' TNull, [])
      else None)"

fun lex :: "lex_state \<Rightarrow> token list \<Rightarrow> string \<Rightarrow> token list option" where
  "lex LStart acc [] = Some (rev acc)"
| "lex (LNum ns s) acc [] = (if num_final ns then Some (rev (TNumber (rev s) # acc)) else None)"
| "lex _ acc [] = None"
| "lex LStart acc (c # cs) =
     (case lex_start c of
        None \<Rightarrow> None
      | Some (st, emitted) \<Rightarrow> lex st (emitted @ acc) cs)"
| "lex (LLit [] tok) acc (c # cs) = None"
| "lex (LLit (x # rest) tok) acc (c # cs) =
     (if c \<noteq> x then None
      else if rest = [] then lex LStart (tok # acc) cs
      else lex (LLit rest tok) acc cs)"
| "lex (LStr s) acc (c # cs) =
     (if c = CHR 0x22 then lex LStart (TString (rev s) # acc) cs
      else if c = CHR 0x5C then lex (LEsc (c # s)) acc cs
      else if (of_char c :: nat) < 32 then None
      else lex (LStr (c # s)) acc cs)"
| "lex (LEsc s) acc (c # cs) =
     (if c \<in> set [CHR 0x22, CHR 0x5C, CHR ''/'', CHR ''b'', CHR ''f'', CHR ''n'', CHR ''r'', CHR ''t'']
      then lex (LStr (c # s)) acc cs
      else if c = CHR ''u'' then lex (LUni 4 (c # s)) acc cs
      else None)"
| "lex (LUni n s) acc (c # cs) =
     (if \<not> is_hex c then None
      else if n \<le> 1 then lex (LStr (c # s)) acc cs
      else lex (LUni (n - 1) (c # s)) acc cs)"
| "lex (LNum ns s) acc (c # cs) =
     (case num_step ns c of
        Some ns' \<Rightarrow> lex (LNum ns' (c # s)) acc cs
      | None \<Rightarrow>
          if num_final ns then
            (case lex_start c of
               None \<Rightarrow> None
             | Some (st, emitted) \<Rightarrow> lex st (emitted @ TNumber (rev s) # acc) cs)
          else None)"

text \<open>
  The parser keeps a stack of the arrays and objects that are open: the elements read
  so far (in reverse), and for an object the key whose value is being read.
\<close>

datatype frame = FArr "json list" | FObj "(string \<times> json) list" string

datatype pstate =
    PValue
  | PArrFirst
  | PObjFirst
  | PKey "(string \<times> json) list"
  | PColon "(string \<times> json) list" string
  | PAfter json

fun start_value :: "token \<Rightarrow> frame list \<Rightarrow> (pstate \<times> frame list) option" where
  "start_value TLBracket st = Some (PArrFirst, st)"
| "start_value TLBrace st = Some (PObjFirst, st)"
| "start_value (TString s) st = Some (PAfter (JString s), st)"
| "start_value (TNumber n) st = Some (PAfter (JNumber n), st)"
| "start_value TTrue st = Some (PAfter (JBool True), st)"
| "start_value TFalse st = Some (PAfter (JBool False), st)"
| "start_value TNull st = Some (PAfter JNull, st)"
| "start_value _ st = None"

fun pstep :: "pstate \<Rightarrow> frame list \<Rightarrow> token \<Rightarrow> (pstate \<times> frame list) option" where
  "pstep PValue st tok = start_value tok st"
| "pstep PArrFirst st tok =
     (if tok = TRBracket then Some (PAfter (JArray []), st) else start_value tok (FArr [] # st))"
| "pstep PObjFirst st tok =
     (case tok of
        TRBrace \<Rightarrow> Some (PAfter (JObject []), st)
      | TString k \<Rightarrow> Some (PColon [] k, st)
      | _ \<Rightarrow> None)"
| "pstep (PKey ms) st tok = (case tok of TString k \<Rightarrow> Some (PColon ms k, st) | _ \<Rightarrow> None)"
| "pstep (PColon ms k) st tok =
     (case tok of TColon \<Rightarrow> Some (PValue, FObj ms k # st) | _ \<Rightarrow> None)"
| "pstep (PAfter v) [] tok = None"
| "pstep (PAfter v) (FArr es # st) tok =
     (case tok of
        TComma \<Rightarrow> Some (PValue, FArr (v # es) # st)
      | TRBracket \<Rightarrow> Some (PAfter (JArray (rev (v # es))), st)
      | _ \<Rightarrow> None)"
| "pstep (PAfter v) (FObj ms k # st) tok =
     (case tok of
        TComma \<Rightarrow> Some (PKey ((k, v) # ms), st)
      | TRBrace \<Rightarrow> Some (PAfter (JObject (rev ((k, v) # ms))), st)
      | _ \<Rightarrow> None)"

fun prun :: "pstate \<Rightarrow> frame list \<Rightarrow> token list \<Rightarrow> json option" where
  "prun (PAfter v) [] [] = Some v"
| "prun _ _ [] = None"
| "prun ps st (t # ts) =
     (case pstep ps st t of
        None \<Rightarrow> None
      | Some (ps', st') \<Rightarrow> prun ps' st' ts)"

definition JSON_parse :: "string \<Rightarrow> json option" where
  "JSON_parse s = (case lex LStart [] s of None \<Rightarrow> None | Some ts \<Rightarrow> prun PValue [] ts)"

subsection \<open>The session registry and the POST /mcp route\<close>

text \<open>
  \<^verbatim>\<open>const transports: Record<string, StreamableHTTPServerTransport> = {}\<close> is an object
  literal: \<^verbatim>\<open>transports[k]\<close> gives the own property \<open>k\<close> when there is one, and otherwise
  what the object inherits from \<^verbatim>\<open>Object.prototype\<close>, whose properties are all truthy
  (functions, and the prototype itself for \<^verbatim>\<open>__proto__\<close>).
\<close>

definition Object_prototype :: "string list" where
  "Object_prototype =
     [''constructor'', ''hasOwnProperty'', ''isPrototypeOf'', ''propertyIsEnumerable'',
      ''toLocaleString'', ''toString'', ''valueOf'', ''__proto__'', ''__defineGetter__'',
      ''__defineSetter__'', ''__lookupGetter__'', ''__lookupSetter__'']"

datatype 'a property = Own 'a | Inherited

definition get_property :: "(string \<rightharpoonup> 'a) \<Rightarrow> string \<Rightarrow> 'a property option" where
  "get_property obj k =
     (case obj k of
        Some v \<Rightarrow> Some (Own v)
      | None \<Rightarrow> if k \<in> set Object_prototype then Some Inherited else None)"

text \<open>
  The state of the process: the own properties of \<^verbatim>\<open>transports\<close>, whose values are
  transport objects (named by numbers, in the order of their creation), the
  \<^verbatim>\<open>sessionId\<close> field of each transport (\<open>None\<close>: undefined) and the number of transports
  created so far.
\<close>

record server_state =
  transports :: "string \<rightharpoonup> nat"
  sessionIds :: "nat \<rightharpoonup> string"
  created :: nat

definition initial_state :: server_state where
  "initial_state = \<lparr>transports = Map.empty, sessionIds = Map.empty, created = 0\<rparr>"

text \<open>The response \<^verbatim>\<open>res.status(400).json({jsonrpc, error: {code, message}, id: null})\<close>.\<close>

record error_response =
  http_status :: nat
  jsonrpc :: string
  error_code :: int
  error_message :: string

definition invalid_session :: error_response where
  "invalid_session =
     \<lparr>http_status = 400, jsonrpc = ''2.0'', error_code = - 32000,
      error_message = ''Invalid session''\<rparr>"

text \<open>
  What the route does with a request: it hands the request to
  \<^verbatim>\<open>transport.handleRequest\<close> of a transport, it answers with an error response, or it
  throws.
\<close>

datatype post_outcome = HandleRequest nat | Respond error_response | Throws exn

text \<open>
  \<^verbatim>\<open>app.post("/mcp", ...)\<close>. \<open>sessionId\<close> is the header \<^verbatim>\<open>mcp-session-id\<close> and \<open>isInit\<close> is
  \<^verbatim>\<open>isInitializeRequest(req.body)\<close> of the SDK. A value inherited from
  \<^verbatim>\<open>Object.prototype\<close> passes the test of the first branch and has no method
  \<^verbatim>\<open>handleRequest\<close>, so the call at the end of the route throws a \<^verbatim>\<open>TypeError\<close>.
\<close>

definition post_mcp :: "server_state \<Rightarrow> string option \<Rightarrow> bool \<Rightarrow> post_outcome \<times> server_state" where
  "post_mcp s sessionId isInit =
     (case (if truthy sessionId then get_property (transports s) (the sessionId) else None) of
        Some (Own t) \<Rightarrow> (HandleRequest t, s)
      | Some Inherited \<Rightarrow> (Throws (Error ''transport.handleRequest is not a function''), s)
      | None \<Rightarrow>
          if \<not> truthy sessionId \<and> isInit then
            (HandleRequest (created s),
             s\<lparr>sessionIds := (sessionIds s)(created s := None), created := Suc (created s)\<rparr>)
          else (Respond invalid_session, s))"

text \<open>The callback \<^verbatim>\<open>onsessioninitialized: (id) => { transports[id] = transport }\<close>.\<close>

definition onsessioninitialized :: "server_state \<Rightarrow> nat \<Rightarrow> string \<Rightarrow> server_state" where
  "onsessioninitialized s t sid = s\<lparr>transports := (transports s)(sid \<mapsto> t)\<rparr>"

text \<open>
  The handler
  \<^verbatim>\<open>transport.onclose = () => { if (transport.sessionId) delete transports[transport.sessionId] }\<close>.
\<close>

definition onclose :: "server_state \<Rightarrow> nat \<Rightarrow> server_state" where
  "onclose s t =
     (if truthy (sessionIds s t)
      then s\<lparr>transports := (transports s)(the (sessionIds s t) := None)\<rparr>
      else s)"

text \<open>
  The session ids come from \<^verbatim>\<open>randomUUID()\<close> of \<^verbatim>\<open>node:crypto\<close>: 36 characters of the
  form \<^verbatim>\<open>xxxxxxxx-xxxx-4xxx-yxxx-xxxxxxxxxxxx\<close>, \<open>x\<close> a lower-case hex digit and \<open>y\<close> one
  of \<^verbatim>\<open>8 9 a b\<close>.
\<close>

fun matches :: "string \<Rightarrow> string \<Rightarrow> bool" where
  "matches [] [] = True"
| "matches (p # ps) (c # cs) =
     ((if p = CHR ''x'' then c \<in> set ''0123456789abcdef''
       else if p = CHR ''y'' then c \<in> set ''89ab''
       else c = p) \<and> matches ps cs)"
| "matches _ _ = False"

definition is_uuid :: "string \<Rightarrow> bool" where
  "is_uuid s = matches ''xxxxxxxx-xxxx-4xxx-yxxx-xxxxxxxxxxxx'' s"

text \<open>
  The states the process can reach. The route is the code above. The other two steps
  are taken by the SDK's transport, outside this repository: when it accepts the
  initialization handshake of a transport that has no session yet, it sets the
  transport's \<^verbatim>\<open>sessionId\<close> to what \<^verbatim>\<open>sessionIdGenerator\<close> returns and then calls
  \<^verbatim>\<open>onsessioninitialized\<close> with it; when the channel closes, it calls \<^verbatim>\<open>onclose\<close>.
\<close>

inductive reachable :: "server_state \<Rightarrow> bool" where
  start: "reachable initial_state"
| request: "reachable s \<Longrightarrow> reachable (snd (post_mcp s sessionId isInit))"
| initialized:
    "reachable s \<Longrightarrow> t < created s \<Longrightarrow> sessionIds s t = None \<Longrightarrow> is_uuid sid \<Longrightarrow>
     reachable (onsessioninitialized (s\<lparr>sessionIds := (sessionIds s)(t \<mapsto> sid)\<rparr>) t sid)"
| closed: "reachable s \<Longrightarrow> t < created s \<Longrightarrow> reachable (onclose s t)"

section \<open>Example inputs\<close>

text \<open>Replies of the upstream, and a registry with one session, for concrete runs.\<close>

definition ongoing_reply :: "PdfStatusResponse body fetch_outcome" where
  "ongoing_reply = Responded \<lparr>status = 200, body_text = Inr [],
     body_json = Inr (Shaped \<lparr>signedUrl = [], metadata = None, requestId = ''r1'',
       renderStatus = ONGOING\<rparr>)\<rparr>"

definition success_data :: PdfStatusResponse where
  "success_data = \<lparr>signedUrl = ''https://x/y.pdf'', metadata = None, requestId = ''r1'',
     renderStatus = SUCCESS\<rparr>"

definition success_reply :: "PdfStatusResponse body fetch_outcome" where
  "success_reply = Responded \<lparr>status = 200, body_text = Inr [],
     body_json = Inr (Shaped success_data)\<rparr>"

definition failed_reply :: "PdfStatusResponse body fetch_outcome" where
  "failed_reply = Responded \<lparr>status = 200, body_text = Inr [],
     body_json = Inr (Shaped \<lparr>signedUrl = [], metadata = None, requestId = ''r1'',
       renderStatus = FAILED\<rparr>)\<rparr>"

definition ready_reply :: "sync_response body fetch_outcome" where
  "ready_reply = Responded \<lparr>status = 200, body_text = Inr [],
     body_json = Inr (Shaped (Success \<lparr>signedUrl = ''https://x/y.pdf'',
       metadata = Some \<lparr>executionTime = ''1.2s'', fileSize = ''10KB''\<rparr>\<rparr>))\<rparr>"

definition queued_job :: PdfQueuedResponse where
  "queued_job = \<lparr>queuedRequestId = ''r1'', statusUrl = ''https://x/status/r1'',
     message = ''queued''\<rparr>"

definition queued_response :: "sync_response body response" where
  "queued_response = \<lparr>status = 202, body_text = Inr [],
     body_json = Inr (Shaped (Queued queued_job))\<rparr>"








definition session_a :: string where
  "session_a = ''123e4567-e89b-42d3-a456-426614174000''"

definition state_a :: server_state where
  "state_a = \<lparr>transports = [session_a \<mapsto> 0], sessionIds = [0 \<mapsto> session_a], created = 1\<rparr>"

section \<open>Vocabulary of the remaining claims\<close>

text \<open>
  The two forms of a tool result, as notation for the records themselves: a text that
  is flagged as an error, and a text that carries no flag.
\<close>

abbreviation flagged :: "string \<Rightarrow> tool_result" where
  "flagged t \<equiv> \<lparr>content = [TextContent t], isError = Some True\<rparr>"

abbreviation unflagged :: "string \<Rightarrow> tool_result" where
  "unflagged t \<equiv> \<lparr>content = [TextContent t], isError = None\<rparr>"

text \<open>A request to the status endpoint.\<close>

definition is_status_query :: "'j event \<Rightarrow> bool" where
  "is_status_query e = (case e of Sleep d \<Rightarrow> False | Fetch ep m k b \<Rightarrow> prefix ''pdf/status/'' ep)"

text \<open>
  Every entry of the registry is filed under the session id of its transport, which is
  not empty, and the transport is one that has been created.
\<close>

definition registry_inv :: "server_state \<Rightarrow> bool" where
  "registry_inv s =
     (\<forall>k t. transports s k = Some t \<longrightarrow> sessionIds s t = Some k \<and> k \<noteq> [] \<and> t < created s)"

section \<open>Properties\<close>

subsection \<open>Polling\<close>

lemma reply_status_delivers:
  "reply_status reply = Some s \<longleftrightarrow> (\<exists>d. delivers reply (Shaped d) \<and> renderStatus d = s)"
  by (auto simp: reply_status_def delivers_def
      split: fetch_outcome.splits sum.splits body.splits if_splits)

lemma callApi_delivers:
  "delivers reply d \<Longrightarrow>
   \<exists>st. callApi reply apiKey endpoint method body tr = (Inr (st, d), tr @ [Fetch endpoint method apiKey body])"
  by (auto simp: delivers_def callApi_def Let_def split: fetch_outcome.splits)

lemma pollLoop_ongoing:
  assumes "attempt \<le> maxAttempts" "reply_status (replies (attempt - 1)) = Some ONGOING"
  shows "pollLoop replies apiKey rid maxAttempts attempt delay tr =
         pollLoop replies apiKey rid maxAttempts (Suc attempt) (backoff delay)
           (tr @ [Sleep delay, status_query apiKey rid])"
proof -
  from assms(2) obtain d where d: "delivers (replies (attempt - 1)) (Shaped d)" "renderStatus d = ONGOING"
    by (auto simp: reply_status_delivers)
  from callApi_delivers [OF d(1)] obtain st where
    "callApi (replies (attempt - 1)) apiKey (''pdf/status/'' @ rid) GET None (tr @ [Sleep delay])
       = (Inr (st, Shaped d), (tr @ [Sleep delay]) @ [Fetch (''pdf/status/'' @ rid) GET apiKey None])"
    by blast
  with assms(1) d(2) show ?thesis
    by (subst pollLoop.simps) (simp add: status_query_def backoff_def)
qed

lemma pollLoop_success:
  assumes "attempt \<le> maxAttempts" "delivers (replies (attempt - 1)) (Shaped d)"
    "renderStatus d = SUCCESS"
  shows "pollLoop replies apiKey rid maxAttempts attempt delay tr =
         (Inr d, tr @ [Sleep delay, status_query apiKey rid])"
proof -
  from callApi_delivers [OF assms(2)] obtain st where
    "callApi (replies (attempt - 1)) apiKey (''pdf/status/'' @ rid) GET None (tr @ [Sleep delay])
       = (Inr (st, Shaped d), (tr @ [Sleep delay]) @ [Fetch (''pdf/status/'' @ rid) GET apiKey None])"
    by blast
  with assms(1,3) show ?thesis
    by (subst pollLoop.simps) (simp add: status_query_def)
qed

lemma pollLoop_failed:
  assumes "attempt \<le> maxAttempts" "reply_status (replies (attempt - 1)) = Some FAILED"
  shows "pollLoop replies apiKey rid maxAttempts attempt delay tr =
         (Inl (Error (''PDF generation failed for request '' @ rid)),
          tr @ [Sleep delay, status_query apiKey rid])"
proof -
  from assms(2) obtain d where d: "delivers (replies (attempt - 1)) (Shaped d)" "renderStatus d = FAILED"
    by (auto simp: reply_status_delivers)
  from callApi_delivers [OF d(1)] obtain st where
    "callApi (replies (attempt - 1)) apiKey (''pdf/status/'' @ rid) GET None (tr @ [Sleep delay])
       = (Inr (st, Shaped d), (tr @ [Sleep delay]) @ [Fetch (''pdf/status/'' @ rid) GET apiKey None])"
    by blast
  with assms(1) d(2) show ?thesis
    by (subst pollLoop.simps) (simp add: status_query_def)
qed

lemma pollLoop_exhausted:
  "maxAttempts < attempt \<Longrightarrow>
   pollLoop replies apiKey rid maxAttempts attempt delay tr =
     (Inl (Error (''PDF generation timed out after '' @ show_nat maxAttempts
                      @ '' attempts for request '' @ rid)), tr)"
  by (subst pollLoop.simps) simp

lemma rounds_Suc:
  "rounds delays apiKey rid (Suc n) = rounds delays apiKey rid n @ [Sleep (delays n), status_query apiKey rid]"
  by (simp add: rounds_def)

lemma rounds_0: "rounds delays apiKey rid 0 = []"
  by (simp add: rounds_def)

lemma pollLoop_ongoing_run:
  assumes "\<forall>i<k. reply_status (replies (a + i)) = Some ONGOING" "a + k \<le> maxAttempts"
  shows "pollLoop replies apiKey rid maxAttempts (Suc a) delay tr =
         pollLoop replies apiKey rid maxAttempts (Suc (a + k)) ((backoff ^^ k) delay)
           (tr @ rounds (\<lambda>i. (backoff ^^ i) delay) apiKey rid k)"
  using assms
proof (induction k)
  case 0
  then show ?case by (simp add: rounds_0)
next
  case (Suc k)
  then have IH: "pollLoop replies apiKey rid maxAttempts (Suc a) delay tr =
         pollLoop replies apiKey rid maxAttempts (Suc (a + k)) ((backoff ^^ k) delay)
           (tr @ rounds (\<lambda>i. (backoff ^^ i) delay) apiKey rid k)"
    by simp
  from Suc.prems have le: "Suc (a + k) \<le> maxAttempts"
    and on: "reply_status (replies (Suc (a + k) - 1)) = Some ONGOING"
    by simp_all
  have step: "pollLoop replies apiKey rid maxAttempts (Suc (a + k)) ((backoff ^^ k) delay)
           (tr @ rounds (\<lambda>i. (backoff ^^ i) delay) apiKey rid k) =
         pollLoop replies apiKey rid maxAttempts (Suc (Suc (a + k))) (backoff ((backoff ^^ k) delay))
           ((tr @ rounds (\<lambda>i. (backoff ^^ i) delay) apiKey rid k)
              @ [Sleep ((backoff ^^ k) delay), status_query apiKey rid])"
    using le on by (intro pollLoop_ongoing) simp_all
  show ?case
    by (simp add: IH step rounds_Suc)
qed

lemma delay_seq_backoff: "delay_seq i = (backoff ^^ i) 2000"
  by (induction i) (simp_all add: backoff_def)

lemma length_fetch_rounds:
  "length (filter is_fetch (rounds delays apiKey rid n)) = n"
  by (induction n) (simp_all add: rounds_Suc rounds_0 status_query_def)

lemma show_nat_20: "show_nat 20 = ''20''"
  by (simp add: show_nat.simps digit_def)


text \<open>
  The default schedule takes the values 2000, 3000, 4500, 6750 and then 10000 for ever;
  the products 10125 and 15000 that are cut off are integers too. All of them are
  doubles, so the rational arithmetic of the model is the arithmetic of the source.
\<close>

lemma delay_seq_capped: "delay_seq (i + 4) = 10000"
  by (induction i) (simp_all add: numeral_eq_Suc)

lemma delay_seq_values:
  "delay_seq 0 = 2000 \<and> delay_seq 1 = 3000 \<and> delay_seq 2 = 4500 \<and> delay_seq 3 = 6750
   \<and> (\<forall>i. delay_seq (i + 4) = 10000)"
  by (intro conjI allI delay_seq_capped) (simp_all add: numeral_eq_Suc)

text \<open>
  C1. For every job-status sequence of exactly \<open>k\<close> ONGOING responses (\<open>k < 20\<close>) followed
  by a SUCCESS response, \<open>pollForPdfCompletion\<close> with the default parameters returns the
  descriptor of the SUCCESS response. Its trace is \<open>k + 1\<close> rounds, each a wait of the
  current delay followed by one status query, so it issues exactly \<open>k + 1\<close> queries;
  the delays are \<open>delay_seq\<close>: 2000 first, then the minimum of 1.5 times the previous
  delay and 10000.
\<close>

theorem poll_success_after_ongoing:
  fixes tr :: "'j event list"
  assumes "k < 20"
    and "\<forall>i<k. reply_status (replies i) = Some ONGOING"
    and "delivers (replies k) (Shaped d)"
    and "renderStatus d = SUCCESS"
  shows "pollForPdfCompletion replies apiKey rid default_maxAttempts default_initialDelayMs tr
           = (Inr d, tr @ rounds delay_seq apiKey rid (Suc k))
         \<and> length (filter is_fetch (rounds delay_seq apiKey rid (Suc k) :: 'j event list)) = k + 1"
proof -
  have run: "pollLoop replies apiKey rid 20 (Suc 0) 2000 tr =
      pollLoop replies apiKey rid 20 (Suc (0 + k)) ((backoff ^^ k) 2000)
        (tr @ rounds (\<lambda>i. (backoff ^^ i) 2000) apiKey rid k)"
    using assms(1,2) by (intro pollLoop_ongoing_run) simp_all
  have last: "pollLoop replies apiKey rid 20 (Suc k) ((backoff ^^ k) 2000)
        (tr @ rounds (\<lambda>i. (backoff ^^ i) 2000) apiKey rid k) =
      (Inr d, (tr @ rounds (\<lambda>i. (backoff ^^ i) 2000) apiKey rid k)
                @ [Sleep ((backoff ^^ k) 2000), status_query apiKey rid])"
    using assms(1,3,4) by (intro pollLoop_success) simp_all
  have sched: "(\<lambda>i. (backoff ^^ i) 2000) = delay_seq"
    by (rule ext) (simp add: delay_seq_backoff)
  from run last show ?thesis
    by (simp add: pollForPdfCompletion_def default_maxAttempts_def default_initialDelayMs_def
        rounds_Suc length_fetch_rounds sched [symmetric] status_query_def)
qed

theorem poll_success_after_ongoing_witness:
  "pollForPdfCompletion (\<lambda>i. if i < 2 then ongoing_reply else success_reply) ''key'' ''r1''
      default_maxAttempts default_initialDelayMs ([] :: unit event list)
    = (Inr success_data,
       [Sleep 2000, status_query ''key'' ''r1'', Sleep 3000, status_query ''key'' ''r1'',
        Sleep 4500, status_query ''key'' ''r1''])"
proof -
  let ?replies = "\<lambda>i::nat. if i < 2 then ongoing_reply else success_reply"
  have h1: "(2::nat) < 20" by simp
  have h2: "\<forall>i<2. reply_status (?replies i) = Some ONGOING"
    by (simp add: reply_status_def ongoing_reply_def ok_def)
  have h3: "delivers (?replies 2) (Shaped success_data)"
    by (simp add: delivers_def success_reply_def ok_def)
  have h4: "renderStatus success_data = SUCCESS"
    by (simp add: success_data_def)
  from poll_success_after_ongoing [OF h1 h2 h3 h4, of "''key''" "''r1''" "[] :: unit event list"]
  have "pollForPdfCompletion ?replies ''key'' ''r1'' default_maxAttempts default_initialDelayMs
          ([] :: unit event list) = (Inr success_data, [] @ rounds delay_seq ''key'' ''r1'' (Suc 2))"
    by (rule conjunct1)
  then show ?thesis
    by (simp add: rounds_def upt_rec)
qed

text \<open>
  C2. For every job-status sequence of 20 consecutive ONGOING responses,
  \<open>pollForPdfCompletion\<close> with the default parameters throws the timed-out error, whose
  message gives the attempt count 20 and the request id; its trace is exactly 20 rounds,
  so it issues 20 status queries and no 21st, whatever the upstream would answer next.
\<close>

theorem poll_timeout_after_20_ongoing:
  fixes tr :: "'j event list"
  assumes "\<forall>i<20. reply_status (replies i) = Some ONGOING"
  shows "pollForPdfCompletion replies apiKey rid default_maxAttempts default_initialDelayMs tr
           = (Inl (Error (''PDF generation timed out after 20 attempts for request '' @ rid)),
              tr @ rounds delay_seq apiKey rid 20)
         \<and> length (filter is_fetch (rounds delay_seq apiKey rid 20 :: 'j event list)) = 20"
proof -
  have run: "pollLoop replies apiKey rid 20 (Suc 0) 2000 tr =
      pollLoop replies apiKey rid 20 (Suc (0 + 20)) ((backoff ^^ 20) 2000)
        (tr @ rounds (\<lambda>i. (backoff ^^ i) 2000) apiKey rid 20)"
    using assms by (intro pollLoop_ongoing_run) simp_all
  have sched: "(\<lambda>i. (backoff ^^ i) 2000) = delay_seq"
    by (rule ext) (simp add: delay_seq_backoff)
  have stop: "pollLoop replies apiKey rid 20 21 ((backoff ^^ 20) 2000)
        (tr @ rounds delay_seq apiKey rid 20) =
      (Inl (Error (''PDF generation timed out after '' @ show_nat 20
                      @ '' attempts for request '' @ rid)), tr @ rounds delay_seq apiKey rid 20)"
    by (rule pollLoop_exhausted) simp
  from run stop show ?thesis
    by (simp add: pollForPdfCompletion_def default_maxAttempts_def default_initialDelayMs_def
        length_fetch_rounds sched show_nat_20)
qed

theorem poll_timeout_after_20_ongoing_witness:
  "fst (pollForPdfCompletion (\<lambda>i. ongoing_reply) ''key'' ''r1''
      default_maxAttempts default_initialDelayMs ([] :: unit event list))
    = Inl (Error ''PDF generation timed out after 20 attempts for request r1'')
   \<and> length (filter is_fetch (snd (pollForPdfCompletion (\<lambda>i. ongoing_reply) ''key'' ''r1''
      default_maxAttempts default_initialDelayMs ([] :: unit event list)))) = 20"
proof -
  have h: "\<forall>i<20. reply_status ((\<lambda>i::nat. ongoing_reply) i) = Some ONGOING"
    by (simp add: reply_status_def ongoing_reply_def ok_def)
  from poll_timeout_after_20_ongoing [OF h, of "''key''" "''r1''" "[] :: unit event list"]
  show ?thesis
    by simp
qed

text \<open>
  C3. If the first response that is not ONGOING is FAILED, at query \<open>k + 1\<close> within the
  budget, \<open>pollForPdfCompletion\<close> throws the render-failed error naming the request id
  right there: the trace ends with that query, so exactly \<open>k + 1\<close> queries are issued,
  whatever the budget \<open>maxAttempts\<close> is.
\<close>

theorem poll_fails_at_first_failed:
  fixes tr :: "'j event list"
  assumes "k < maxAttempts"
    and "\<forall>i<k. reply_status (replies i) = Some ONGOING"
    and "reply_status (replies k) = Some FAILED"
  shows "pollForPdfCompletion replies apiKey rid maxAttempts default_initialDelayMs tr
           = (Inl (Error (''PDF generation failed for request '' @ rid)),
              tr @ rounds delay_seq apiKey rid (Suc k))
         \<and> length (filter is_fetch (rounds delay_seq apiKey rid (Suc k) :: 'j event list)) = k + 1"
proof -
  have run: "pollLoop replies apiKey rid maxAttempts (Suc 0) 2000 tr =
      pollLoop replies apiKey rid maxAttempts (Suc (0 + k)) ((backoff ^^ k) 2000)
        (tr @ rounds (\<lambda>i. (backoff ^^ i) 2000) apiKey rid k)"
    using assms(1,2) by (intro pollLoop_ongoing_run) simp_all
  have last: "pollLoop replies apiKey rid maxAttempts (Suc k) ((backoff ^^ k) 2000)
        (tr @ rounds (\<lambda>i. (backoff ^^ i) 2000) apiKey rid k) =
      (Inl (Error (''PDF generation failed for request '' @ rid)),
       (tr @ rounds (\<lambda>i. (backoff ^^ i) 2000) apiKey rid k)
                @ [Sleep ((backoff ^^ k) 2000), status_query apiKey rid])"
    using assms(1,3) by (intro pollLoop_failed) simp_all
  have sched: "(\<lambda>i. (backoff ^^ i) 2000) = delay_seq"
    by (rule ext) (simp add: delay_seq_backoff)
  from run last show ?thesis
    by (simp add: pollForPdfCompletion_def default_initialDelayMs_def rounds_Suc
        length_fetch_rounds sched [symmetric] status_query_def)
qed

theorem poll_fails_at_first_failed_witness:
  "pollForPdfCompletion (\<lambda>i. if i < 1 then ongoing_reply else failed_reply) ''key'' ''r1''
      default_maxAttempts default_initialDelayMs ([] :: unit event list)
    = (Inl (Error ''PDF generation failed for request r1''),
       [Sleep 2000, status_query ''key'' ''r1'', Sleep 3000, status_query ''key'' ''r1''])"
proof -
  let ?replies = "\<lambda>i::nat. if i < 1 then ongoing_reply else failed_reply"
  have h1: "1 < default_maxAttempts" by (simp add: default_maxAttempts_def)
  have h2: "\<forall>i<1. reply_status (?replies i) = Some ONGOING"
    by (simp add: reply_status_def ongoing_reply_def ok_def)
  have h3: "reply_status (?replies 1) = Some FAILED"
    by (simp add: reply_status_def failed_reply_def ok_def)
  from poll_fails_at_first_failed [OF h1 h2 h3, of "''key''" "''r1''" "[] :: unit event list"]
  have "pollForPdfCompletion ?replies ''key'' ''r1'' default_maxAttempts default_initialDelayMs
          ([] :: unit event list)
        = (Inl (Error (''PDF generation failed for request '' @ ''r1'')),
           [] @ rounds delay_seq ''key'' ''r1'' (Suc 1))"
    by (rule conjunct1)
  then show ?thesis
    by (simp add: rounds_def upt_rec)
qed

subsection \<open>The tools\<close>


lemma callApi_trace:
  "snd (callApi reply apiKey endpoint method body tr) = tr @ [Fetch endpoint method apiKey body]"
  by (simp add: callApi_def Let_def split: fetch_outcome.splits sum.splits)

text \<open>The \<^verbatim>\<open>try\<close> with the shared \<^verbatim>\<open>catch\<close> block, with the record it returns written out.\<close>

lemma try_catch_catch_as:
  "try_catch body (catch_as pre) =
     (case body of
        (Inl e, s) \<Rightarrow>
          (Inr \<lparr>content = [TextContent (pre @ message_of e)], isError = Some True\<rparr>, s)
      | (Inr v, s) \<Rightarrow> (Inr v, s))"
  by (simp add: try_catch_def catch_as_def error_result_def split: prod.splits sum.splits)


lemma JSON_parse_empty: "JSON_parse [] = None"
  by (simp add: JSON_parse_def)

lemma JSON_parse_bad: "JSON_parse ''{bad'' = None"
  by (simp add: JSON_parse_def lex_start_def)

lemma JSON_parse_open: "JSON_parse ''[1,'' = None"
  by (simp add: JSON_parse_def lex_start_def is_digit_def is_exp_def)

lemma JSON_parse_array: "JSON_parse ''[1, 2]'' = Some (JArray [JNumber ''1'', JNumber ''2''])"
  by (simp add: JSON_parse_def lex_start_def is_digit_def is_exp_def)

lemma message_invalid_json:
  "message_of (invalid_json name) = ''Invalid JSON provided for '' @ [CHR 0x27] @ name @ [CHR 0x27] @ '' parameter''"
  by (simp add: invalid_json_def)





lemma html_to_pdf_invalid:
  "html_payload parse html pdfParams convertToImage metadataArg hasCover = Inl e \<Longrightarrow>
   html_to_pdf parse sync_reply status_replies apiKey html pdfParams convertToImage metadataArg
     hasCover waitForCompletion tr
   = (Inr \<lparr>content = [TextContent (''Error converting HTML to PDF: '' @ message_of e)],
           isError = Some True\<rparr>, tr)"
  by (simp add: html_to_pdf_def html_to_pdf_body_def try_catch_catch_as)


















text \<open>
  C9. Two invocations of \<open>list_templates\<close> that differ only in \<open>limit\<close> have the same
  result and the same trace, and the one request they issue is
  \<^verbatim>\<open>GET integration/templates\<close> with no body: \<open>limit\<close> has no effect.
\<close>

theorem list_templates_ignores_limit:
  "list_templates stringify reply apiKey limit1 tr = list_templates stringify reply apiKey limit2 tr
   \<and> snd (list_templates stringify reply apiKey limit1 tr)
       = tr @ [Fetch ''integration/templates'' GET apiKey None]"
  by (auto simp: list_templates_def list_templates_body_def try_catch_catch_as callApi_def Let_def
      split: fetch_outcome.splits sum.splits prod.splits)

lemma html_to_pdf_ready:
  "html_payload parse html pdfParams convertToImage metadataArg hasCover = Inr payload \<Longrightarrow>
   html_to_pdf parse ready_reply status_replies apiKey html pdfParams convertToImage metadataArg
     hasCover waitForCompletion tr
   = (Inr (unflagged (fileType convertToImage
        @ '' Generated Successfully!\<newline>Download URL: https://x/y.pdf\<newline>Execution time: 1.2s\<newline>File size: 10KB'')),
      tr @ [Fetch ''html-to-pdf/sync'' POST apiKey (Some payload)])"
  by (simp add: html_to_pdf_def html_to_pdf_body_def try_catch_catch_as callApi_def ready_reply_def
      ok_def after_sync_def timing_def or_NA_def text_result_def)

text \<open>
  C4, as the code has it. A malformed JSON string that is not empty is rejected before
  any upstream call: as \<open>pdfParams\<close> of \<open>html_to_pdf\<close> with a flagged result that names
  \<open>pdfParams\<close>; as \<open>metadata\<close>, when \<open>pdfParams\<close> is absent, empty or well-formed, with
  a flagged result that names \<open>metadata\<close>; as \<open>data\<close> of \<open>generate_pdf\<close> (here the empty
  string too) with a flagged result that names \<open>data\<close>. The trace is unchanged in each
  case: no upstream call is issued. This holds for every parser.
\<close>

theorem invalid_json_rejected:
  "(pdfParams = Some s \<and> s \<noteq> [] \<and> parse s = None \<longrightarrow>
      html_to_pdf parse sync_reply status_replies apiKey html pdfParams convertToImage metadataArg
        hasCover waitForCompletion tr
      = (Inr (flagged
           ''Error converting HTML to PDF: Invalid JSON provided for 'pdfParams' parameter''), tr))
   \<and> ((\<not> truthy pdfParams \<or> parse (the pdfParams) \<noteq> None)
        \<and> metadataArg = Some s \<and> s \<noteq> [] \<and> parse s = None \<longrightarrow>
      html_to_pdf parse sync_reply status_replies apiKey html pdfParams convertToImage metadataArg
        hasCover waitForCompletion tr
      = (Inr (flagged
           ''Error converting HTML to PDF: Invalid JSON provided for 'metadata' parameter''), tr))
   \<and> (parse data = None \<longrightarrow>
      generate_pdf parse sync_reply status_replies apiKey templateId data waitForCompletion tr
      = (Inr (flagged
           ''Error generating PDF: Invalid JSON provided for 'data' parameter''), tr))"
proof (intro conjI impI)
  assume "pdfParams = Some s \<and> s \<noteq> [] \<and> parse s = None"
  then have "html_payload parse html pdfParams convertToImage metadataArg hasCover
      = Inl (invalid_json ''pdfParams'')"
    by (simp add: html_payload_def add_json_param_def truthy_def)
  from html_to_pdf_invalid [OF this]
  show "html_to_pdf parse sync_reply status_replies apiKey html pdfParams convertToImage metadataArg
        hasCover waitForCompletion tr
      = (Inr (flagged
           ''Error converting HTML to PDF: Invalid JSON provided for 'pdfParams' parameter''), tr)"
    by (simp add: message_invalid_json)
next
  assume "(\<not> truthy pdfParams \<or> parse (the pdfParams) \<noteq> None)
        \<and> metadataArg = Some s \<and> s \<noteq> [] \<and> parse s = None"
  then have "html_payload parse html pdfParams convertToImage metadataArg hasCover
      = Inl (invalid_json ''metadata'')"
    by (auto simp: html_payload_def add_json_param_def truthy_def split: option.splits)
  from html_to_pdf_invalid [OF this]
  show "html_to_pdf parse sync_reply status_replies apiKey html pdfParams convertToImage metadataArg
        hasCover waitForCompletion tr
      = (Inr (flagged
           ''Error converting HTML to PDF: Invalid JSON provided for 'metadata' parameter''), tr)"
    by (simp add: message_invalid_json)
next
  assume "parse data = None"
  then show "generate_pdf parse sync_reply status_replies apiKey templateId data waitForCompletion tr
      = (Inr (flagged
           ''Error generating PDF: Invalid JSON provided for 'data' parameter''), tr)"
    by (simp add: generate_pdf_def generate_pdf_body_def try_catch_catch_as message_invalid_json)
qed

text \<open>The three cases at the malformed text \<^verbatim>\<open>{bad\<close>, with the JSON grammar as parser.\<close>

theorem invalid_json_rejected_witness:
  "html_to_pdf JSON_parse ready_reply (\<lambda>i. ongoing_reply) ''key'' ''<p>hi</p>'' (Some ''{bad'')
      None None None None []
    = (Inr (flagged
        ''Error converting HTML to PDF: Invalid JSON provided for 'pdfParams' parameter''), [])
   \<and> html_to_pdf JSON_parse ready_reply (\<lambda>i. ongoing_reply) ''key'' ''<p>hi</p>'' (Some ''[1, 2]'')
      None (Some ''{bad'') None None []
    = (Inr (flagged
        ''Error converting HTML to PDF: Invalid JSON provided for 'metadata' parameter''), [])
   \<and> generate_pdf JSON_parse ready_reply (\<lambda>i. ongoing_reply) ''key'' ''invoice-001'' ''{bad'' None []
    = (Inr (flagged ''Error generating PDF: Invalid JSON provided for 'data' parameter''), [])"
proof (intro conjI)
  show "html_to_pdf JSON_parse ready_reply (\<lambda>i. ongoing_reply) ''key'' ''<p>hi</p>'' (Some ''{bad'')
      None None None None []
    = (Inr (flagged
        ''Error converting HTML to PDF: Invalid JSON provided for 'pdfParams' parameter''), [])"
    using invalid_json_rejected [of "Some ''{bad''" "''{bad''" JSON_parse ready_reply
        "\<lambda>i. ongoing_reply" "''key''" "''<p>hi</p>''" None None None None "[]"]
    by (simp add: JSON_parse_bad)
  show "html_to_pdf JSON_parse ready_reply (\<lambda>i. ongoing_reply) ''key'' ''<p>hi</p>'' (Some ''[1, 2]'')
      None (Some ''{bad'') None None []
    = (Inr (flagged
        ''Error converting HTML to PDF: Invalid JSON provided for 'metadata' parameter''), [])"
    using invalid_json_rejected [of "Some ''[1, 2]''" "''{bad''" JSON_parse ready_reply
        "\<lambda>i. ongoing_reply" "''key''" "''<p>hi</p>''" None "Some ''{bad''" None None "[]"]
    by (simp add: JSON_parse_bad JSON_parse_array)
  show "generate_pdf JSON_parse ready_reply (\<lambda>i. ongoing_reply) ''key'' ''invoice-001'' ''{bad'' None []
    = (Inr (flagged ''Error generating PDF: Invalid JSON provided for 'data' parameter''), [])"
    using invalid_json_rejected [of None "''{bad''" JSON_parse ready_reply
        "\<lambda>i. ongoing_reply" "''key''" "''<p>hi</p>''" None None None None "[]" "''{bad''"
        "''invoice-001''"]
    by (simp add: JSON_parse_bad)
qed

text \<open>
  C4 as stated fails at two inputs. The empty string is malformed JSON, but as
  \<open>pdfParams\<close> it is skipped by \<^verbatim>\<open>if (pdfParams)\<close>: the upstream call is issued and the
  result is not flagged. And when \<open>pdfParams\<close> and \<open>metadata\<close> are both malformed, the
  result names \<open>pdfParams\<close> only.
\<close>

theorem invalid_json_rejected_counterexample:
  "JSON_parse [] = None
   \<and> html_to_pdf JSON_parse ready_reply (\<lambda>i. ongoing_reply) ''key'' ''<p>hi</p>'' (Some [])
        None None None None []
     = (Inr (unflagged
          ''PDF Generated Successfully!\<newline>Download URL: https://x/y.pdf\<newline>Execution time: 1.2s\<newline>File size: 10KB''),
        [Fetch ''html-to-pdf/sync'' POST ''key'' (Some [(''html'', VString ''<p>hi</p>'')])])
   \<and> JSON_parse ''[1,'' = None
   \<and> html_to_pdf JSON_parse ready_reply (\<lambda>i. ongoing_reply) ''key'' ''<p>hi</p>'' (Some ''{bad'')
        None (Some ''[1,'') None None []
     = (Inr (flagged
          ''Error converting HTML to PDF: Invalid JSON provided for 'pdfParams' parameter''), [])
   \<and> \<not> sublist ''metadata''
          ''Error converting HTML to PDF: Invalid JSON provided for 'pdfParams' parameter''"
proof (intro conjI)
  show "JSON_parse [] = None" by (rule JSON_parse_empty)
  show "JSON_parse ''[1,'' = None" by (rule JSON_parse_open)
  have "html_payload JSON_parse ''<p>hi</p>'' (Some []) None None None
      = Inr [(''html'', VString ''<p>hi</p>'')]"
    by (simp add: html_payload_def add_json_param_def add_bool_param_def truthy_def)
  from html_to_pdf_ready [OF this]
  show "html_to_pdf JSON_parse ready_reply (\<lambda>i. ongoing_reply) ''key'' ''<p>hi</p>'' (Some [])
        None None None None []
     = (Inr (unflagged
          ''PDF Generated Successfully!\<newline>Download URL: https://x/y.pdf\<newline>Execution time: 1.2s\<newline>File size: 10KB''),
        [Fetch ''html-to-pdf/sync'' POST ''key'' (Some [(''html'', VString ''<p>hi</p>'')])])"
    by (simp add: fileType_def)
  have "html_payload JSON_parse ''<p>hi</p>'' (Some ''{bad'') None (Some ''[1,'') None
      = Inl (invalid_json ''pdfParams'')"
    by (simp add: html_payload_def add_json_param_def truthy_def JSON_parse_bad)
  from html_to_pdf_invalid [OF this]
  show "html_to_pdf JSON_parse ready_reply (\<lambda>i. ongoing_reply) ''key'' ''<p>hi</p>'' (Some ''{bad'')
        None (Some ''[1,'') None None []
     = (Inr (flagged
          ''Error converting HTML to PDF: Invalid JSON provided for 'pdfParams' parameter''), [])"
    by (simp add: message_invalid_json)
  show "\<not> sublist ''metadata''
          ''Error converting HTML to PDF: Invalid JSON provided for 'pdfParams' parameter''"
    by code_simp
qed

lemma pollLoop_extends:
  "prefix tr (snd (pollLoop replies apiKey rid maxAttempts attempt delay tr))"
proof (induction replies apiKey rid maxAttempts attempt delay tr rule: pollLoop.induct)
  case (1 replies apiKey rid maxAttempts attempt delay tr)
  let ?call = "callApi (replies (attempt - 1)) apiKey (''pdf/status/'' @ rid) GET None
                (tr @ [Sleep delay])"
  have tr': "snd ?call = (tr @ [Sleep delay]) @ [Fetch (''pdf/status/'' @ rid) GET apiKey None]"
    by (rule callApi_trace)
  show ?case
  proof (cases "attempt \<le> maxAttempts")
    case False
    then show ?thesis by (subst pollLoop.simps) simp
  next
    case True
    show ?thesis
    proof (cases ?call)
      case (Pair res tr1)
      with tr' have tr1: "tr1 = tr @ [Sleep delay, Fetch (''pdf/status/'' @ rid) GET apiKey None]"
        by simp
      show ?thesis
      proof (cases res)
        case (Inl e)
        with True Pair tr1 show ?thesis by (subst pollLoop.simps) simp
      next
        case (Inr sd)
        obtain st data where sd: "sd = (st, data)" by (cases sd)
        show ?thesis
        proof (cases data)
          case Null
          with True Pair Inr sd tr1 show ?thesis by (subst pollLoop.simps) simp
        next
          case (Shaped d)
          show ?thesis
          proof (cases "renderStatus d = SUCCESS \<or> renderStatus d = FAILED")
            case True
            with \<open>attempt \<le> maxAttempts\<close> Pair Inr sd Shaped tr1 show ?thesis
              by (subst pollLoop.simps) auto
          next
            case False
            then have ne: "renderStatus d \<noteq> SUCCESS" "renderStatus d \<noteq> FAILED"
              by simp_all
            from "1.IH" [OF \<open>attempt \<le> maxAttempts\<close> Pair [symmetric] Inr sd [symmetric] Shaped ne]
            have "prefix tr1 (snd (pollLoop replies apiKey rid maxAttempts (attempt + 1)
                    (min (delay * 3 / 2) 10000) tr1))"
              by simp
            moreover have "prefix tr tr1" using tr1 by simp
            ultimately have "prefix tr (snd (pollLoop replies apiKey rid maxAttempts (attempt + 1)
                    (min (delay * 3 / 2) 10000) tr1))"
              by (rule prefix_order.trans [rotated])
            with \<open>attempt \<le> maxAttempts\<close> Pair Inr sd Shaped False show ?thesis
              by (subst pollLoop.simps) simp
          qed
        qed
      qed
    qed
  qed
qed

lemma after_sync_extends:
  "prefix tr (snd (after_sync status_replies apiKey kind wait st result tr))"
proof (cases result)
  case Null
  then show ?thesis by (simp add: after_sync_def)
next
  case (Shaped res)
  have "prefix tr (snd (pollForPdfCompletion status_replies apiKey (rendered_requestId res)
                   default_maxAttempts default_initialDelayMs tr))"
    unfolding pollForPdfCompletion_def by (rule pollLoop_extends)
  with Shaped show ?thesis
    by (auto simp: after_sync_def split: prod.splits sum.splits)
qed

lemma html_to_pdf_calls:
  assumes "html_payload parse html pdfParams convertToImage metadataArg hasCover = Inr payload"
  shows "prefix (tr @ [Fetch ''html-to-pdf/sync'' POST apiKey (Some payload)])
           (snd (html_to_pdf parse sync_reply status_replies apiKey html pdfParams convertToImage
                   metadataArg hasCover waitForCompletion tr))"
proof -
  let ?call = "callApi sync_reply apiKey ''html-to-pdf/sync'' POST (Some payload) tr"
  have tr': "snd ?call = tr @ [Fetch ''html-to-pdf/sync'' POST apiKey (Some payload)]"
    by (rule callApi_trace)
  show ?thesis
  proof (cases ?call)
    case (Pair res tr1)
    with tr' have tr1: "tr1 = tr @ [Fetch ''html-to-pdf/sync'' POST apiKey (Some payload)]"
      by simp
    show ?thesis
    proof (cases res)
      case (Inl e)
      with assms Pair tr1 show ?thesis
        by (simp add: html_to_pdf_def html_to_pdf_body_def try_catch_catch_as)
    next
      case (Inr sd)
      obtain st result where sd: "sd = (st, result)" by (cases sd)
      have "prefix tr1 (snd (after_sync status_replies apiKey (fileType convertToImage)
                 (wait_flag waitForCompletion) st result tr1))"
        by (rule after_sync_extends)
      with assms Pair Inr sd tr1 show ?thesis
        by (cases "after_sync status_replies apiKey (fileType convertToImage)
                 (wait_flag waitForCompletion) st result tr1";
            cases "fst (after_sync status_replies apiKey (fileType convertToImage)
                 (wait_flag waitForCompletion) st result tr1)")
           (simp_all add: html_to_pdf_def html_to_pdf_body_def try_catch_catch_as)
    qed
  qed
qed

lemma add_json_param_empty:
  "add_json_param parse name (Some []) payload = add_json_param parse name None payload"
  by (simp add: add_json_param_def truthy_def)

lemma html_payload_empty_pdfParams:
  "html_payload parse html (Some []) convertToImage metadataArg hasCover
   = html_payload parse html None convertToImage metadataArg hasCover"
  by (simp add: html_payload_def add_json_param_empty)

lemma html_payload_empty_metadata:
  "html_payload parse html pdfParams convertToImage (Some []) hasCover
   = html_payload parse html pdfParams convertToImage None hasCover"
  by (simp add: html_payload_def add_json_param_empty split: sum.splits)

lemma map_of_add_bool_param:
  "name \<noteq> k \<Longrightarrow> map_of (add_bool_param name arg payload) k = map_of payload k"
  by (simp add: add_bool_param_def map_of_append map_add_def split: option.splits)

lemma html_payload_without_pdfParams:
  assumes "\<not> truthy metadataArg \<or> parse (the metadataArg) \<noteq> None"
  shows "\<exists>payload. html_payload parse html None convertToImage metadataArg hasCover = Inr payload
           \<and> map_of payload ''pdfParams'' = None"
  using assms
  by (auto simp: html_payload_def add_json_param_def truthy_def map_of_add_bool_param map_of_append
      split: option.splits)

lemma html_payload_without_metadata:
  assumes "\<not> truthy pdfParams \<or> parse (the pdfParams) \<noteq> None"
  shows "\<exists>payload. html_payload parse html pdfParams convertToImage None hasCover = Inr payload
           \<and> map_of payload ''metadata'' = None"
  using assms
  by (auto simp: html_payload_def add_json_param_def truthy_def map_of_add_bool_param map_of_append
      split: option.splits)

lemma html_payload_error:
  "html_payload parse html pdfParams convertToImage metadataArg hasCover = Inl e \<Longrightarrow>
   (e = invalid_json ''pdfParams'' \<and> truthy pdfParams)
   \<or> (e = invalid_json ''metadata'' \<and> truthy metadataArg)"
  by (auto simp: html_payload_def add_json_param_def split: sum.splits option.splits if_splits)

text \<open>
  C10, as the code has it. An empty string given as \<open>pdfParams\<close> or as \<open>metadata\<close> is
  treated exactly as an absent parameter: \<open>html_to_pdf\<close> behaves as it does without it,
  building the payload never throws the validation error of that parameter, and the
  payload has no property of that name. The upstream call is issued, with that
  payload, when the other JSON-string parameter is absent, empty or well-formed.
\<close>

theorem empty_json_param_is_absent:
  "html_to_pdf parse sync_reply status_replies apiKey html (Some []) convertToImage metadataArg
       hasCover waitForCompletion tr
     = html_to_pdf parse sync_reply status_replies apiKey html None convertToImage metadataArg
         hasCover waitForCompletion tr
   \<and> html_to_pdf parse sync_reply status_replies apiKey html pdfParams convertToImage (Some [])
       hasCover waitForCompletion tr
     = html_to_pdf parse sync_reply status_replies apiKey html pdfParams convertToImage None
         hasCover waitForCompletion tr
   \<and> html_payload parse html (Some []) convertToImage metadataArg hasCover
       \<noteq> Inl (invalid_json ''pdfParams'')
   \<and> html_payload parse html pdfParams convertToImage (Some []) hasCover
       \<noteq> Inl (invalid_json ''metadata'')
   \<and> (\<not> truthy metadataArg \<or> parse (the metadataArg) \<noteq> None \<longrightarrow>
        (\<exists>payload. html_payload parse html (Some []) convertToImage metadataArg hasCover = Inr payload
           \<and> map_of payload ''pdfParams'' = None
           \<and> prefix (tr @ [Fetch ''html-to-pdf/sync'' POST apiKey (Some payload)])
               (snd (html_to_pdf parse sync_reply status_replies apiKey html (Some [])
                  convertToImage metadataArg hasCover waitForCompletion tr))))
   \<and> (\<not> truthy pdfParams \<or> parse (the pdfParams) \<noteq> None \<longrightarrow>
        (\<exists>payload. html_payload parse html pdfParams convertToImage (Some []) hasCover = Inr payload
           \<and> map_of payload ''metadata'' = None
           \<and> prefix (tr @ [Fetch ''html-to-pdf/sync'' POST apiKey (Some payload)])
               (snd (html_to_pdf parse sync_reply status_replies apiKey html pdfParams
                  convertToImage (Some []) hasCover waitForCompletion tr))))"
proof (intro conjI impI)
  show "html_to_pdf parse sync_reply status_replies apiKey html (Some []) convertToImage metadataArg
       hasCover waitForCompletion tr
     = html_to_pdf parse sync_reply status_replies apiKey html None convertToImage metadataArg
         hasCover waitForCompletion tr"
    by (simp add: html_to_pdf_def html_to_pdf_body_def html_payload_empty_pdfParams)
  show "html_to_pdf parse sync_reply status_replies apiKey html pdfParams convertToImage (Some [])
       hasCover waitForCompletion tr
     = html_to_pdf parse sync_reply status_replies apiKey html pdfParams convertToImage None
         hasCover waitForCompletion tr"
    by (simp add: html_to_pdf_def html_to_pdf_body_def html_payload_empty_metadata)
  show "html_payload parse html (Some []) convertToImage metadataArg hasCover
       \<noteq> Inl (invalid_json ''pdfParams'')"
    using html_payload_error [of parse html "Some []" convertToImage metadataArg hasCover
        "invalid_json ''pdfParams''"]
    by (auto simp: truthy_def invalid_json_def)
  show "html_payload parse html pdfParams convertToImage (Some []) hasCover
       \<noteq> Inl (invalid_json ''metadata'')"
    using html_payload_error [of parse html pdfParams convertToImage "Some []" hasCover
        "invalid_json ''metadata''"]
    by (auto simp: truthy_def invalid_json_def)
next
  assume "\<not> truthy metadataArg \<or> parse (the metadataArg) \<noteq> None"
  from html_payload_without_pdfParams [of metadataArg parse html convertToImage hasCover, OF this]
  obtain payload where p: "html_payload parse html (Some []) convertToImage metadataArg hasCover
      = Inr payload" "map_of payload ''pdfParams'' = None"
    by (auto simp: html_payload_empty_pdfParams)
  from html_to_pdf_calls [OF p(1)] p
  show "\<exists>payload. html_payload parse html (Some []) convertToImage metadataArg hasCover = Inr payload
           \<and> map_of payload ''pdfParams'' = None
           \<and> prefix (tr @ [Fetch ''html-to-pdf/sync'' POST apiKey (Some payload)])
               (snd (html_to_pdf parse sync_reply status_replies apiKey html (Some [])
                  convertToImage metadataArg hasCover waitForCompletion tr))"
    by blast
next
  assume "\<not> truthy pdfParams \<or> parse (the pdfParams) \<noteq> None"
  from html_payload_without_metadata [of pdfParams parse html convertToImage hasCover, OF this]
  obtain payload where p: "html_payload parse html pdfParams convertToImage (Some []) hasCover
      = Inr payload" "map_of payload ''metadata'' = None"
    by (auto simp: html_payload_empty_metadata)
  from html_to_pdf_calls [OF p(1)] p
  show "\<exists>payload. html_payload parse html pdfParams convertToImage (Some []) hasCover = Inr payload
           \<and> map_of payload ''metadata'' = None
           \<and> prefix (tr @ [Fetch ''html-to-pdf/sync'' POST apiKey (Some payload)])
               (snd (html_to_pdf parse sync_reply status_replies apiKey html pdfParams
                  convertToImage (Some []) hasCover waitForCompletion tr))"
    by blast
qed

text \<open>
  C10 as stated fails where the other parameter is malformed: with \<open>pdfParams\<close> the empty
  string and \<open>metadata\<close> the text \<^verbatim>\<open>{bad\<close>, no upstream call is issued.
\<close>

theorem empty_json_param_is_absent_counterexample:
  "html_to_pdf JSON_parse ready_reply (\<lambda>i. ongoing_reply) ''key'' ''<p>hi</p>'' (Some [])
      None (Some ''{bad'') None None []
   = (Inr (flagged
        ''Error converting HTML to PDF: Invalid JSON provided for 'metadata' parameter''), [])"
proof -
  have "html_payload JSON_parse ''<p>hi</p>'' (Some []) None (Some ''{bad'') None
      = Inl (invalid_json ''metadata'')"
    by (simp add: html_payload_def add_json_param_def truthy_def JSON_parse_bad)
  from html_to_pdf_invalid [OF this] show ?thesis
    by (simp add: message_invalid_json)
qed

text \<open>With \<open>pdfParams\<close> the empty string and a well-formed \<open>metadata\<close>, the call is issued.\<close>

theorem empty_json_param_is_absent_witness:
  "\<exists>payload. html_payload JSON_parse ''<p>hi</p>'' (Some []) None (Some ''[1, 2]'') None = Inr payload
      \<and> map_of payload ''pdfParams'' = None
      \<and> prefix ([] @ [Fetch ''html-to-pdf/sync'' POST ''key'' (Some payload)])
          (snd (html_to_pdf JSON_parse ready_reply (\<lambda>i. ongoing_reply) ''key'' ''<p>hi</p>''
                  (Some []) None (Some ''[1, 2]'') None None []))"
proof -
  have h: "\<not> truthy (Some ''[1, 2]'') \<or> JSON_parse (the (Some ''[1, 2]'')) \<noteq> None"
    by (simp add: JSON_parse_array)
  from empty_json_param_is_absent [of JSON_parse ready_reply "\<lambda>i. ongoing_reply" "''key''"
      "''<p>hi</p>''" None "Some ''[1, 2]''" None None "[]" None] h
  show ?thesis
    by blast
qed

text \<open>
  C8. When \<open>html_to_pdf\<close> is invoked with \<open>waitForCompletion = false\<close>, its payload is
  built and the upstream answers the call with status 202 and a queued response, the
  tool returns a result without the error flag whose content is one text \<open>t\<close>: the
  queued notice, which contains the request id and names the \<^verbatim>\<open>check_pdf_status\<close> tool.
  The one event added to the trace is the request to \<^verbatim>\<open>html-to-pdf/sync\<close>, so the
  trace has the status queries it had before and no other, whatever the status endpoint
  would answer.
\<close>

theorem html_to_pdf_queued_no_wait:
  fixes tr :: "'j event list"
  assumes "html_payload parse html pdfParams convertToImage metadataArg hasCover = Inr payload"
    and "status r = 202"
    and "body_json r = Inr (Shaped (Queued q))"
  shows "\<exists>res t.
           html_to_pdf parse (Responded r) status_replies apiKey html pdfParams convertToImage
             metadataArg hasCover (Some False) tr
           = (Inr res, tr @ [Fetch ''html-to-pdf/sync'' POST apiKey (Some payload)])
         \<and> content res = [TextContent t]
         \<and> isError res = None
         \<and> t = ''PDF generation queued (taking longer than 30 seconds).\<newline>Request ID: ''
               @ queuedRequestId q @ ''\<newline>Use the check_pdf_status tool to monitor progress.''
         \<and> sublist (queuedRequestId q) t
         \<and> sublist ''check_pdf_status'' t
         \<and> filter is_status_query
               (snd (html_to_pdf parse (Responded r) status_replies apiKey html pdfParams
                       convertToImage metadataArg hasCover (Some False) tr))
             = filter is_status_query tr"
proof -
  let ?t = "''PDF generation queued (taking longer than 30 seconds).\<newline>Request ID: ''
               @ queuedRequestId q @ ''\<newline>Use the check_pdf_status tool to monitor progress.''"
  have run: "html_to_pdf parse (Responded r) status_replies apiKey html pdfParams convertToImage
             metadataArg hasCover (Some False) tr
           = (Inr (unflagged ?t), tr @ [Fetch ''html-to-pdf/sync'' POST apiKey (Some payload)])"
    using assms
    by (simp add: html_to_pdf_def html_to_pdf_body_def try_catch_catch_as callApi_def ok_def
        after_sync_def wait_flag_def text_result_def queued_text_def)
  have rid: "sublist (queuedRequestId q) ?t"
    by (rule sublist_appendI)
  have "sublist ''check_pdf_status'' ''\<newline>Use the check_pdf_status tool to monitor progress.''"
    by code_simp
  moreover have "sublist ''\<newline>Use the check_pdf_status tool to monitor progress.'' ?t"
    unfolding append_assoc [symmetric] by (rule sublist_append_leftI)
  ultimately have tool: "sublist ''check_pdf_status'' ?t"
    by (rule sublist_order.order.trans)
  have quiet: "filter is_status_query
      (tr @ [Fetch ''html-to-pdf/sync'' POST apiKey (Some payload)]) = filter is_status_query tr"
    by (simp add: is_status_query_def)
  from run rid tool quiet show ?thesis
    by (intro exI [of _ "unflagged ?t"] exI [of _ ?t]) simp
qed

text \<open>The example of the specification: the upstream queues the job \<open>r1\<close>.\<close>

theorem html_to_pdf_queued_no_wait_witness:
  "html_to_pdf JSON_parse (Responded queued_response) (\<lambda>i. ongoing_reply) ''key'' ''<p>hi</p>''
      (Some ''[1, 2]'') None None None (Some False) []
   = (Inr \<lparr>content = [TextContent
        ''PDF generation queued (taking longer than 30 seconds).\<newline>Request ID: r1\<newline>Use the check_pdf_status tool to monitor progress.''],
        isError = None\<rparr>,
      [Fetch ''html-to-pdf/sync'' POST ''key''
         (Some [(''html'', VString ''<p>hi</p>''),
                (''pdfParams'', VJson (JArray [JNumber ''1'', JNumber ''2'']))])])"
proof -
  have h1: "html_payload JSON_parse ''<p>hi</p>'' (Some ''[1, 2]'') None None None
      = Inr [(''html'', VString ''<p>hi</p>''),
             (''pdfParams'', VJson (JArray [JNumber ''1'', JNumber ''2'']))]"
    by (simp add: html_payload_def add_json_param_def add_bool_param_def truthy_def
        JSON_parse_array)
  have h2: "status (queued_response :: sync_response body response) = 202"
    by (simp add: queued_response_def)
  have h3: "body_json queued_response = Inr (Shaped (Queued queued_job))"
    by (simp add: queued_response_def)
  from html_to_pdf_queued_no_wait [OF h1 h2 h3, of "\<lambda>i. ongoing_reply" "''key''" "[]"]
  obtain res t where
    "html_to_pdf JSON_parse (Responded queued_response) (\<lambda>i. ongoing_reply) ''key'' ''<p>hi</p>''
       (Some ''[1, 2]'') None None None (Some False) []
     = (Inr res, [] @ [Fetch ''html-to-pdf/sync'' POST ''key''
         (Some [(''html'', VString ''<p>hi</p>''),
                (''pdfParams'', VJson (JArray [JNumber ''1'', JNumber ''2'']))])])"
    and "content res = [TextContent t]" and "isError res = None"
    and "t = ''PDF generation queued (taking longer than 30 seconds).\<newline>Request ID: ''
               @ queuedRequestId queued_job
               @ ''\<newline>Use the check_pdf_status tool to monitor progress.''"
    by blast
  then show ?thesis
    by (cases res) (simp add: queued_job_def)
qed

subsection \<open>The session registry\<close>

lemma is_uuid_nonempty: "is_uuid sid \<Longrightarrow> sid \<noteq> []"
  by (auto simp: is_uuid_def)

lemma post_mcp_transports: "transports (snd (post_mcp s sessionId isInit)) = transports s"
  by (simp add: post_mcp_def split: option.splits property.splits)

lemma post_mcp_inv:
  assumes "registry_inv s"
  shows "registry_inv (snd (post_mcp s sessionId isInit))"
  using assms
  by (auto simp: registry_inv_def post_mcp_def less_Suc_eq split: option.splits property.splits)

lemma initialized_inv:
  assumes "registry_inv s" "t < created s" "sessionIds s t = None" "is_uuid sid"
  shows "registry_inv (onsessioninitialized (s\<lparr>sessionIds := (sessionIds s)(t \<mapsto> sid)\<rparr>) t sid)"
  using assms is_uuid_nonempty [OF assms(4)]
  by (auto simp: registry_inv_def onsessioninitialized_def)

lemma onclose_inv:
  assumes "registry_inv s"
  shows "registry_inv (onclose s t)"
  using assms
  by (auto simp: registry_inv_def onclose_def)

lemma reachable_inv: "reachable s \<Longrightarrow> registry_inv s"
proof (induction rule: reachable.induct)
  case start
  show ?case by (simp add: registry_inv_def initial_state_def)
next
  case (request s sessionId isInit)
  then show ?case by (simp add: post_mcp_inv)
next
  case (initialized s t sid)
  then show ?case by (simp add: initialized_inv)
next
  case (closed s t)
  then show ?case by (simp add: onclose_inv)
qed

lemma onclose_removes:
  assumes "registry_inv s"
  shows "transports (onclose s t) k \<noteq> Some t"
proof
  assume reg: "transports (onclose s t) k = Some t"
  show False
  proof (cases "truthy (sessionIds s t)")
    case True
    with reg have "k \<noteq> the (sessionIds s t)" and "transports s k = Some t"
      by (auto simp: onclose_def split: if_splits)
    with assms show False
      by (auto simp: registry_inv_def)
  next
    case False
    with reg have "transports s k = Some t"
      by (simp add: onclose_def)
    with assms have "sessionIds s t = Some k" "k \<noteq> []"
      by (auto simp: registry_inv_def)
    with False show False
      by (simp add: truthy_def)
  qed
qed

lemma is_uuid_session_a: "is_uuid session_a"
  by (simp add: is_uuid_def session_a_def)

lemma reachable_state_a: "reachable state_a"
proof -
  let ?s1 = "snd (post_mcp initial_state None True)"
  have s1: "?s1 = \<lparr>transports = Map.empty, sessionIds = Map.empty, created = 1\<rparr>"
    by (simp add: post_mcp_def initial_state_def truthy_def)
  have "reachable ?s1"
    by (rule reachable.request [OF reachable.start])
  then have "reachable (onsessioninitialized (?s1\<lparr>sessionIds := (sessionIds ?s1)(0 \<mapsto> session_a)\<rparr>)
      0 session_a)"
    by (rule reachable.initialized) (simp_all add: s1 is_uuid_session_a)
  then show ?thesis
    by (simp add: s1 onsessioninitialized_def state_a_def)
qed

text \<open>
  C7. In every reachable state the registry maps a session id to at most one transport,
  every entry is filed under the session id of its own transport, and after the close
  handler of a transport has run no entry of the registry maps to that transport.
\<close>

theorem registry_close_removes_entry:
  assumes "reachable s"
  shows "(\<forall>k t t'. transports s k = Some t \<and> transports s k = Some t' \<longrightarrow> t = t')
       \<and> (\<forall>k t. transports s k = Some t \<longrightarrow> sessionIds s t = Some k)
       \<and> (\<forall>t k. transports (onclose s t) k \<noteq> Some t)"
  using reachable_inv [OF assms] onclose_removes [OF reachable_inv [OF assms]]
  by (auto simp: registry_inv_def)

text \<open>A session is created, initialised and closed: its entry is gone.\<close>

theorem registry_close_removes_entry_witness:
  "transports state_a session_a = Some 0
   \<and> transports (onclose state_a 0) session_a = None
   \<and> (\<forall>t k. transports (onclose state_a t) k \<noteq> Some t)"
proof (intro conjI)
  show "transports state_a session_a = Some 0"
    by (simp add: state_a_def)
  show "transports (onclose state_a 0) session_a = None"
    by (simp add: state_a_def onclose_def truthy_def session_a_def)
  from registry_close_removes_entry [OF reachable_state_a]
  show "\<forall>t k. transports (onclose state_a t) k \<noteq> Some t"
    by blast
qed

text \<open>
  C6 fails for a session id that names a property of \<^verbatim>\<open>Object.prototype\<close>. With no
  session registered, a POST with the header \<^verbatim>\<open>mcp-session-id: constructor\<close> is not
  answered with the \<open>Invalid session\<close> error: the lookup \<^verbatim>\<open>transports[sessionId]\<close> finds
  the inherited property, the first branch is taken, and the route throws.
\<close>

theorem post_mcp_inherited_key:
  "post_mcp initial_state (Some ''constructor'') False
     = (Throws (Error ''transport.handleRequest is not a function''), initial_state)
   \<and> fst (post_mcp initial_state (Some ''constructor'') False) \<noteq> Respond invalid_session"
  by (simp add: post_mcp_def initial_state_def truthy_def get_property_def Object_prototype_def)

text \<open>
  For all other requests the route does what C6 says: a registered id is routed to its
  transport, a request with no (or an empty) session id creates a transport when it is
  an initialization request and is rejected otherwise, and an unknown id that is not a
  property of \<^verbatim>\<open>Object.prototype\<close> is rejected. The transport created is a new object:
  no entry of the registry maps to it.
\<close>

lemma post_mcp_routes:
  "(sessionId = Some k \<and> transports s k = Some t \<and> k \<noteq> [] \<longrightarrow>
      post_mcp s sessionId isInit = (HandleRequest t, s))
   \<and> (\<not> truthy sessionId \<and> isInit \<longrightarrow>
      post_mcp s sessionId isInit
        = (HandleRequest (created s),
           s\<lparr>sessionIds := (sessionIds s)(created s := None), created := Suc (created s)\<rparr>))
   \<and> (\<not> truthy sessionId \<and> \<not> isInit \<longrightarrow> post_mcp s sessionId isInit = (Respond invalid_session, s))
   \<and> (sessionId = Some k \<and> k \<noteq> [] \<and> transports s k = None \<and> k \<notin> set Object_prototype \<longrightarrow>
      post_mcp s sessionId isInit = (Respond invalid_session, s))
   \<and> (sessionId = Some k \<and> transports s k = None \<and> k \<in> set Object_prototype \<longrightarrow>
      post_mcp s sessionId isInit
        = (Throws (Error ''transport.handleRequest is not a function''), s))"
  by (auto simp: post_mcp_def truthy_def get_property_def Object_prototype_def)

lemma reachable_fresh_transport:
  "reachable s \<Longrightarrow> transports s k \<noteq> Some (created s)"
  using reachable_inv [of s] by (auto simp: registry_inv_def)

end
